theory Spec2Isabelle
  imports Complex_Main "HOL-Library.Sublist"
begin

section \<open>Exceptions\<close>

text \<open>
  The handlers of the functions modelled here are \<^verbatim>\<open>except Exception\<close>. The model carries
  the two kinds of exception the file distinguishes: a plain \<^verbatim>\<open>Exception\<close> with its message and
  FastAPI's \<^verbatim>\<open>HTTPException(status_code, detail)\<close>, which is a subclass of
  \<^verbatim>\<open>Exception\<close> and is therefore caught by the same handlers. A fallible call returns
  \<open>exn + 'a\<close>, with \<open>Inl\<close> for the exception raised.

  The message literals of the source are Korean; the model carries English renderings of
  them, no property below depends on their wording.
\<close>

datatype exn = Exception string | HTTPException nat string

fun http_status :: "exn \<Rightarrow> nat option" where
  "http_status (HTTPException code detail) = Some code"
| "http_status (Exception msg) = None"

definition digit_char :: "nat \<Rightarrow> char" where
  "digit_char d = ''0123456789'' ! (d mod 10)"

fun show_nat_fuel :: "nat \<Rightarrow> nat \<Rightarrow> string" where
  "show_nat_fuel 0 n = [digit_char n]"
| "show_nat_fuel (Suc k) n =
     (if n < 10 then [digit_char n] else show_nat_fuel k (n div 10) @ [digit_char n])"

definition show_nat :: "nat \<Rightarrow> string" where
  "show_nat n = show_nat_fuel n n"

fun str_exn :: "exn \<Rightarrow> string" where
  "str_exn (Exception msg) = msg"
| "str_exn (HTTPException code detail) = show_nat code @ '': '' @ detail"

section \<open>Stage outputs and stored documents\<close>

text \<open>
  The analyzers return dictionaries. Each is modelled by a record of the keys that
  \<^verbatim>\<open>main.py\<close> reads, every one optional (\<^verbatim>\<open>dict.get(key, default)\<close> substitutes the
  default for an absent key), plus the list of the keys it does not read, which only
  matters for the truth value of the dictionary.
\<close>

record analysis_summary =
  total_violations :: "int option"
  face_multiple_detected :: "bool option"

record basic_scores =
  total_eye_score :: "real option"
  concentration_score :: "real option"
  stability_score :: "real option"
  blink_score :: "real option"
  eye_improvement_suggestions :: "string list option"

record gaze_result =
  gaze_basic_scores :: "basic_scores option"
  gaze_analysis_summary :: "analysis_summary option"
  attention_score :: "real option"
  gaze_other_keys :: "string list"

record detailed_analysis =
  improvement_suggestions :: "string list option"

record emotion_result =
  interview_score :: "real option"
  emotion_detailed_analysis :: "detailed_analysis option"
  emotion_other_keys :: "string list"

definition gaze_truthy :: "gaze_result \<Rightarrow> bool" where
  "gaze_truthy g \<longleftrightarrow>
     gaze_basic_scores g \<noteq> None \<or> gaze_analysis_summary g \<noteq> None \<or>
     attention_score g \<noteq> None \<or> gaze_other_keys g \<noteq> []"

definition emotion_truthy :: "emotion_result \<Rightarrow> bool" where
  "emotion_truthy e \<longleftrightarrow>
     interview_score e \<noteq> None \<or> emotion_detailed_analysis e \<noteq> None \<or>
     emotion_other_keys e \<noteq> []"

record cheating_detection =
  suspected_copying :: bool
  suspected_impersonation :: bool
  cd_total_violations :: int
  cd_face_multiple_detected :: bool
  error_occurred :: "bool option"

record video_info =
  vi_s3_bucket :: string
  vi_s3_key :: string
  vi_local_path :: string
  vi_file_size :: nat

text \<open>
  A document of the collection \<^verbatim>\<open>analysis_results\<close>. The dedup of the scan reads
  \<^verbatim>\<open>user_id\<close> and \<^verbatim>\<open>question_num\<close> with \<^verbatim>\<open>doc.get\<close>, so both are optional.
\<close>

record job_record =
  analysis_id :: string
  user_id :: "string option"
  question_num :: "string option"
  session_id :: "string option"
  jr_video_info :: "video_info option"
  emotion_analysis :: "emotion_result option"
  eye_tracking_analysis :: "gaze_result option"
  jr_cheating_detection :: "cheating_detection option"
  status :: string
  error :: "string option"
  created_at :: nat
  completed_at :: "nat option"
  failed_at :: "nat option"

record queue_entry =
  qe_analysis_id :: string
  qe_user_id :: string
  qe_question_num :: string
  qe_added_at :: nat

record gpt_analysis =
  strength_keyword :: string
  weakness_keyword :: string

record interview_attitude =
  ia_user_id :: string
  ia_question_num :: string
  ia_emotion_score :: real
  ia_eye_score :: real
  ia_suspected_copying :: bool
  ia_suspected_impersonation :: bool
  ia_gpt_analysis :: gpt_analysis

record llm_comment =
  overall_feedback :: string
  overall_score :: real

record status_update =
  su_analysis_id :: string
  su_status :: string
  su_stage :: "string option"
  su_progress :: real
  su_write_error :: "string option"

section \<open>Cheat signals\<close>

text \<open>
  Lines 884-887 of \<^verbatim>\<open>process_s3_user_video_analysis\<close>:
  \<^verbatim>\<open>gaze_result.get('analysis_summary', {}).get('total_violations', 0)\<close> and the same
  for \<^verbatim>\<open>face_multiple_detected\<close> with default \<^verbatim>\<open>False\<close>.
\<close>

definition get_total_violations :: "gaze_result \<Rightarrow> int" where
  "get_total_violations g =
     (case gaze_analysis_summary g of
        None \<Rightarrow> 0
      | Some a \<Rightarrow> (case total_violations a of None \<Rightarrow> 0 | Some n \<Rightarrow> n))"

definition get_face_multiple_detected :: "gaze_result \<Rightarrow> bool" where
  "get_face_multiple_detected g =
     (case gaze_analysis_summary g of
        None \<Rightarrow> False
      | Some a \<Rightarrow> (case face_multiple_detected a of None \<Rightarrow> False | Some b \<Rightarrow> b))"

definition cheating_detection_of :: "gaze_result \<Rightarrow> cheating_detection" where
  "cheating_detection_of gaze =
     (let total = get_total_violations gaze;
          multi = get_face_multiple_detected gaze;
          copying = (total \<ge> 5);
          impersonation = multi
      in \<lparr> suspected_copying = copying,
           suspected_impersonation = impersonation,
           cd_total_violations = get_total_violations gaze,
           cd_face_multiple_detected = get_face_multiple_detected gaze,
           error_occurred = None \<rparr>)"

text \<open>
  Lines 1373-1375 of \<^verbatim>\<open>process_gpt_batch\<close> recompute both signals from the stored
  document: \<^verbatim>\<open>doc.get('eye_tracking_analysis', {})\<close>, then the same two reads.
\<close>

definition batch_suspected_copying :: "job_record \<Rightarrow> bool" where
  "batch_suspected_copying doc =
     (case eye_tracking_analysis doc of
        None \<Rightarrow> (0::int) \<ge> 5
      | Some eye \<Rightarrow> get_total_violations eye \<ge> 5)"

definition batch_suspected_impersonation :: "job_record \<Rightarrow> bool" where
  "batch_suspected_impersonation doc =
     (case eye_tracking_analysis doc of
        None \<Rightarrow> False
      | Some eye \<Rightarrow> get_face_multiple_detected eye)"

section \<open>The job collection\<close>

text \<open>
  The collection is a list of documents. \<^verbatim>\<open>find_one({'analysis_id': id})\<close> returns the
  first match; \<^verbatim>\<open>replace_one({'analysis_id': id}, doc, upsert=True)\<close> replaces the first
  match, or inserts the document when there is none.
\<close>

fun find_one :: "string \<Rightarrow> job_record list \<Rightarrow> job_record option" where
  "find_one aid [] = None"
| "find_one aid (d # ds) = (if analysis_id d = aid then Some d else find_one aid ds)"

fun replace_one :: "string \<Rightarrow> job_record \<Rightarrow> job_record list \<Rightarrow> job_record list" where
  "replace_one aid doc [] = [doc]"
| "replace_one aid doc (d # ds) =
     (if analysis_id d = aid then doc # ds else d # replace_one aid doc ds)"

section \<open>Inventory scan: which units are pending\<close>

text \<open>
  Lines 1213-1232 of \<^verbatim>\<open>auto_analyze_all_s3_videos\<close>. The set of existing analyses holds
  the strings \<^verbatim>\<open>f"{user_id}_{question_num}"\<close> of the documents whose two fields are both
  truthy (present and not the empty string); a unit of the listing is pending when its own string is not in that set.
  The listing is a dictionary from user to the list of that user's questions.
\<close>

definition analysis_key :: "string \<Rightarrow> string \<Rightarrow> string" where
  "analysis_key u q = u @ ''_'' @ q"

fun existing_analyses :: "job_record list \<Rightarrow> string list" where
  "existing_analyses [] = []"
| "existing_analyses (doc # docs) =
     (case (user_id doc, question_num doc) of
        (Some u, Some q) \<Rightarrow>
          (if u \<noteq> [] \<and> q \<noteq> [] then analysis_key u q # existing_analyses docs
           else existing_analyses docs)
      | _ \<Rightarrow> existing_analyses docs)"

fun videos_to_analyze :: "(string \<times> string list) list \<Rightarrow> string list \<Rightarrow> (string \<times> string) list" where
  "videos_to_analyze [] existing = []"
| "videos_to_analyze ((u, qs) # rest) existing =
     map (Pair u) (filter (\<lambda>q. analysis_key u q \<notin> set existing) qs)
       @ videos_to_analyze rest existing"

definition pending_units :: "(string \<times> string list) list \<Rightarrow> job_record list \<Rightarrow> (string \<times> string) list" where
  "pending_units available docs = videos_to_analyze available (existing_analyses docs)"

text \<open>What the claim speaks of: a document exists for the pair, whatever its status.\<close>

definition record_exists_for :: "job_record list \<Rightarrow> string \<Rightarrow> string \<Rightarrow> bool" where
  "record_exists_for docs u q =
     list_ex (\<lambda>d. user_id d = Some u \<and> question_num d = Some q) docs"

definition listed :: "(string \<times> string list) list \<Rightarrow> string \<Rightarrow> string \<Rightarrow> bool" where
  "listed available u q = list_ex (\<lambda>(u', qs). u' = u \<and> q \<in> set qs) available"

definition is_pending :: "(string \<times> string list) list \<Rightarrow> job_record list \<Rightarrow> string \<Rightarrow> string \<Rightarrow> bool" where
  "is_pending available docs u q = ((u, q) \<in> set (pending_units available docs))"

section \<open>Collaborators and program state\<close>

text \<open>
  The collaborators of \<^verbatim>\<open>main.py\<close> (object store, analyzers, databases, keyword and GPT
  analyzers) are not part of the file. Each is a parameter: a function from the arguments
  of the call to its result, \<open>Inl\<close> or \<open>Some\<close> of an exception when the call raises.
  \<open>top_level_fault\<close> stands for an exception raised inside the \<^verbatim>\<open>try\<close> block of
  \<^verbatim>\<open>process_gpt_batch\<close> but outside the handler of one item (a failing \<^verbatim>\<open>print\<close>, for
  instance), when the loop is about to take the item of that number.
\<close>

record keyword_analysis_data =
  kw_emotion_score :: real
  kw_eye_score :: real
  kw_concentration_score :: real
  kw_stability_score :: real
  kw_blink_score :: real
  kw_total_violations :: int
  kw_face_multiple_detected :: bool
  kw_suspected_copying :: bool
  kw_suspected_impersonation :: bool

record env =
  getenv_bucket :: "string option"
  temp_upload_dir :: string
  strftime :: "nat \<Rightarrow> string"
  find_video_file :: "string \<Rightarrow> string \<Rightarrow> string \<Rightarrow> exn + string option"
  list_available_users_and_questions :: "string \<Rightarrow> exn + (string \<times> string list) list"
  makedirs :: "string \<Rightarrow> exn option"
  download_file :: "string \<Rightarrow> string \<Rightarrow> string \<Rightarrow> exn + string"
  emotion_analyze_video :: "string \<Rightarrow> exn + emotion_result"
  eye_analyze_video :: "string \<Rightarrow> string \<Rightarrow> string \<Rightarrow> string \<Rightarrow> exn + gaze_result"
  getsize :: "string \<Rightarrow> nat"
  db_write :: "job_record \<Rightarrow> exn option"
  db_read :: "string \<Rightarrow> exn option"
  db_scan :: "exn option"
  status_session :: "string \<Rightarrow> string \<Rightarrow> string option \<Rightarrow> real \<Rightarrow> exn option"
  analyze_keywords :: "keyword_analysis_data \<Rightarrow> exn + gpt_analysis"
  save_interview_attitude :: "interview_attitude \<Rightarrow> exn option"
  analyze_interview_results :: "emotion_result \<Rightarrow> gaze_result \<Rightarrow> string \<Rightarrow> string \<Rightarrow> exn + llm_comment"
  top_level_fault :: "nat \<Rightarrow> exn option"

text \<open>
  The state: the collection \<^verbatim>\<open>analysis_results\<close>, the two module globals
  \<^verbatim>\<open>_pending_gpt_analyses\<close> and \<^verbatim>\<open>_batch_processing_active\<close>, the rows saved through
  \<^verbatim>\<open>save_interview_attitude\<close>, the status updates emitted so far, and the clock that
  \<^verbatim>\<open>datetime.now()\<close> reads and \<^verbatim>\<open>asyncio.sleep\<close> advances.
\<close>

record state =
  analysis_results :: "job_record list"
  pending_gpt_analyses :: "queue_entry list"
  batch_processing_active :: bool
  interview_attitudes :: "interview_attitude list"
  status_updates :: "status_update list"
  clock :: nat

type_synonym 'a action = "state \<Rightarrow> (exn + 'a) \<times> state"

definition and_then :: "'a action \<Rightarrow> ('a \<Rightarrow> 'b action) \<Rightarrow> 'b action" where
  "and_then m f s = (case m s of (Inl e, s') \<Rightarrow> (Inl e, s') | (Inr v, s') \<Rightarrow> f v s')"

definition call :: "exn + 'a \<Rightarrow> 'a action" where
  "call r s = (r, s)"

definition call_unit :: "exn option \<Rightarrow> unit action" where
  "call_unit r s = (case r of Some e \<Rightarrow> (Inl e, s) | None \<Rightarrow> (Inr (), s))"

definition effect :: "(state \<Rightarrow> state) \<Rightarrow> unit action" where
  "effect f s = (Inr (), f s)"

definition bucket_name :: "env \<Rightarrow> string" where
  "bucket_name env = (case getenv_bucket env of Some b \<Rightarrow> b | None \<Rightarrow> ''skala25a'')"

definition sleep :: "nat \<Rightarrow> state \<Rightarrow> state" where
  "sleep n s = s\<lparr>clock := clock s + n\<rparr>"

section \<open>Status updates\<close>

text \<open>
  \<^verbatim>\<open>update_analysis_status\<close> (lines 1167-1198) builds the update and opens a database
  session inside \<^verbatim>\<open>try\<close>; \<^verbatim>\<open>except Exception\<close> prints the failure. Either way it
  returns normally. The dictionary it builds is not written anywhere (the session only
  prints), so the model records the update that was emitted, with the message of the
  failure of its write when there was one. The stage is recorded when it is truthy.
\<close>

definition update_analysis_status ::
  "env \<Rightarrow> string \<Rightarrow> string \<Rightarrow> string option \<Rightarrow> real \<Rightarrow> state \<Rightarrow> state" where
  "update_analysis_status env aid st stage progress s =
     (let update = \<lparr> su_analysis_id = aid, su_status = st,
                       su_stage = (if stage = Some [] then None else stage),
                       su_progress = progress, su_write_error = None \<rparr>
      in case status_session env aid st stage progress of
           None \<Rightarrow> s\<lparr>status_updates := status_updates s @ [update]\<rparr>
         | Some e \<Rightarrow>
             s\<lparr>status_updates :=
                 status_updates s @ [update\<lparr>su_write_error := Some (str_exn e)\<rparr>]\<rparr>)"

section \<open>The deferred queue\<close>

definition add_to_gpt_batch_queue :: "string \<Rightarrow> string \<Rightarrow> string \<Rightarrow> state \<Rightarrow> state" where
  "add_to_gpt_batch_queue aid uid qnum s =
     s\<lparr>pending_gpt_analyses := pending_gpt_analyses s @
         [\<lparr> qe_analysis_id = aid, qe_user_id = uid, qe_question_num = qnum,
            qe_added_at = clock s \<rparr>]\<rparr>"

definition upsert_job :: "env \<Rightarrow> job_record \<Rightarrow> unit action" where
  "upsert_job env doc s =
     (case db_write env doc of
        Some e \<Rightarrow> (Inl e, s)
      | None \<Rightarrow>
          (Inr (), s\<lparr>analysis_results := replace_one (analysis_id doc) doc (analysis_results s)\<rparr>))"

definition save_attitude :: "env \<Rightarrow> interview_attitude \<Rightarrow> unit action" where
  "save_attitude env row s =
     (case save_interview_attitude env row of
        Some e \<Rightarrow> (Inl e, s)
      | None \<Rightarrow> (Inr (), s\<lparr>interview_attitudes := interview_attitudes s @ [row]\<rparr>))"

section \<open>One job: \<^verbatim>\<open>process_s3_user_video_analysis\<close>\<close>

text \<open>
  The module defines \<^verbatim>\<open>process_s3_user_video_analysis\<close> twice (lines 708 and 822); the
  second definition replaces the first when the module is loaded, so every caller runs the
  second, which is the one modelled. Its \<^verbatim>\<open>try\<close> block is \<open>analysis_try\<close>: the stages in
  the order of the source, each able to raise. \<open>scoring_stages\<close> is lines 838-878,
  \<open>persist_stages\<close> lines 880-1005.
\<close>

definition key_error :: "string \<Rightarrow> exn" where
  "key_error k = Exception ([CHR 0x27] @ k @ [CHR 0x27])"

definition concentration_of :: "gaze_result \<Rightarrow> exn + real" where
  "concentration_of gaze =
     (case gaze_basic_scores gaze of
        Some b \<Rightarrow>
          (case concentration_score b of
             None \<Rightarrow> Inl (key_error ''concentration_score'')
           | Some c \<Rightarrow> Inr c)
      | None \<Rightarrow> Inr (case attention_score gaze of None \<Rightarrow> 0 | Some a \<Rightarrow> a))"

definition scoring_stages ::
  "env \<Rightarrow> string \<Rightarrow> string \<Rightarrow> string \<Rightarrow> string \<Rightarrow> string
     \<Rightarrow> (string \<times> emotion_result \<times> gaze_result) action" where
  "scoring_stages env aid s3_bucket s3_key uid qnum =
     and_then (effect (update_analysis_status env aid ''processing'' (Some ''download'') 10)) (\<lambda>_.
     and_then (call_unit (makedirs env (temp_upload_dir env @ ''/'' @ aid))) (\<lambda>_.
     and_then (call (download_file env s3_bucket s3_key (temp_upload_dir env @ ''/'' @ aid)))
       (\<lambda>temp_file_path.
     and_then (effect (update_analysis_status env aid ''processing'' (Some ''emotion_analysis'') 30))
       (\<lambda>_.
     and_then (call (emotion_analyze_video env temp_file_path)) (\<lambda>emotion.
     and_then (effect (update_analysis_status env aid ''processing'' (Some ''eye_tracking'') 60))
       (\<lambda>_.
     and_then (call (eye_analyze_video env temp_file_path uid qnum s3_key)) (\<lambda>gaze.
     and_then (call (concentration_of gaze)) (\<lambda>_.
     call (Inr (temp_file_path, emotion, gaze))))))))))"

definition analysis_data ::
  "env \<Rightarrow> string \<Rightarrow> string \<Rightarrow> string \<Rightarrow> string \<Rightarrow> string \<Rightarrow> string option
     \<Rightarrow> string \<Rightarrow> emotion_result \<Rightarrow> gaze_result \<Rightarrow> nat \<Rightarrow> job_record" where
  "analysis_data env aid s3_bucket s3_key uid qnum sid temp_file_path emotion gaze now =
     \<lparr> analysis_id = aid,
       user_id = Some uid,
       question_num = Some qnum,
       session_id = sid,
       jr_video_info = Some \<lparr> vi_s3_bucket = s3_bucket, vi_s3_key = s3_key,
                              vi_local_path = temp_file_path,
                              vi_file_size = getsize env temp_file_path \<rparr>,
       emotion_analysis = Some emotion,
       eye_tracking_analysis = Some gaze,
       jr_cheating_detection = Some (cheating_detection_of gaze),
       status = ''completed'',
       error = None,
       created_at = now,
       completed_at = Some now,
       failed_at = None \<rparr>"

definition emotion_score_of :: "emotion_result \<Rightarrow> real" where
  "emotion_score_of emotion =
     (if emotion_truthy emotion
      then (case interview_score emotion of None \<Rightarrow> 48 | Some v \<Rightarrow> v)
      else 48)"

definition keyword_data_of :: "emotion_result \<Rightarrow> gaze_result \<Rightarrow> keyword_analysis_data" where
  "keyword_data_of emotion gaze =
     (let b = (if gaze_truthy gaze then gaze_basic_scores gaze else None);
          pick = (\<lambda>field dflt. case b of None \<Rightarrow> dflt
                               | Some bs \<Rightarrow> (case field bs of None \<Rightarrow> dflt | Some v \<Rightarrow> v))
      in \<lparr> kw_emotion_score = emotion_score_of emotion,
           kw_eye_score = pick total_eye_score 32,
           kw_concentration_score = pick concentration_score 12,
           kw_stability_score = pick stability_score 12,
           kw_blink_score = pick blink_score 8,
           kw_total_violations = get_total_violations gaze,
           kw_face_multiple_detected = get_face_multiple_detected gaze,
           kw_suspected_copying = suspected_copying (cheating_detection_of gaze),
           kw_suspected_impersonation = suspected_impersonation (cheating_detection_of gaze) \<rparr>)"

definition strip_q :: "string \<Rightarrow> string" where
  "strip_q qnum = filter (\<lambda>c. c \<noteq> CHR ''Q'' \<and> c \<noteq> CHR ''q'') qnum"

definition persist_stages ::
  "env \<Rightarrow> string \<Rightarrow> string \<Rightarrow> string \<Rightarrow> string \<Rightarrow> string \<Rightarrow> string option
     \<Rightarrow> string \<Rightarrow> emotion_result \<Rightarrow> gaze_result \<Rightarrow> unit action" where
  "persist_stages env aid s3_bucket s3_key uid qnum sid temp_file_path emotion gaze =
     and_then (effect (update_analysis_status env aid ''processing'' (Some ''save_results'') 80))
       (\<lambda>_.
     and_then (\<lambda>s. upsert_job env
         (analysis_data env aid s3_bucket s3_key uid qnum sid temp_file_path emotion gaze (clock s)) s)
       (\<lambda>_.
     and_then (effect (add_to_gpt_batch_queue aid uid qnum)) (\<lambda>_.
     and_then (call (analyze_keywords env (keyword_data_of emotion gaze))) (\<lambda>keywords.
     and_then (save_attitude env
         \<lparr> ia_user_id = uid, ia_question_num = strip_q qnum,
           ia_emotion_score = kw_emotion_score (keyword_data_of emotion gaze),
           ia_eye_score = kw_eye_score (keyword_data_of emotion gaze),
           ia_suspected_copying = suspected_copying (cheating_detection_of gaze),
           ia_suspected_impersonation = suspected_impersonation (cheating_detection_of gaze),
           ia_gpt_analysis = keywords \<rparr>) (\<lambda>_.
     effect (update_analysis_status env aid ''completed'' (Some ''completed'') 100))))))"

definition analysis_try ::
  "env \<Rightarrow> string \<Rightarrow> string \<Rightarrow> string \<Rightarrow> string \<Rightarrow> string \<Rightarrow> string option \<Rightarrow> unit action" where
  "analysis_try env aid s3_bucket s3_key uid qnum sid =
     and_then (scoring_stages env aid s3_bucket s3_key uid qnum) (\<lambda>(temp_file_path, emotion, gaze).
       persist_stages env aid s3_bucket s3_key uid qnum sid temp_file_path emotion gaze)"

text \<open>
  The handler (lines 1008-1040): publish \<^verbatim>\<open>("failed", "error", 0.0)\<close>, then upsert the
  error document inside a \<^verbatim>\<open>try\<close> of its own, whose failure is printed and dropped.
  The \<^verbatim>\<open>finally\<close> clause removes the temporary directory inside a \<^verbatim>\<open>try\<close> of its own;
  it touches nothing of the state modelled here.
\<close>

definition error_data ::
  "string \<Rightarrow> string \<Rightarrow> string \<Rightarrow> string option \<Rightarrow> exn \<Rightarrow> nat \<Rightarrow> job_record" where
  "error_data aid uid qnum sid e now =
     \<lparr> analysis_id = aid,
       user_id = Some uid,
       question_num = Some qnum,
       session_id = sid,
       jr_video_info = None,
       emotion_analysis = None,
       eye_tracking_analysis = None,
       jr_cheating_detection = Some \<lparr> suspected_copying = False,
                                      suspected_impersonation = False,
                                      cd_total_violations = 0,
                                      cd_face_multiple_detected = False,
                                      error_occurred = Some True \<rparr>,
       status = ''error'',
       error = Some (str_exn e),
       created_at = now,
       completed_at = None,
       failed_at = Some now \<rparr>"

definition analysis_except ::
  "env \<Rightarrow> string \<Rightarrow> string \<Rightarrow> string \<Rightarrow> string option \<Rightarrow> exn \<Rightarrow> state \<Rightarrow> state" where
  "analysis_except env aid uid qnum sid e s =
     (let s1 = update_analysis_status env aid ''failed'' (Some ''error'') 0 s
      in case upsert_job env (error_data aid uid qnum sid e (clock s1)) s1 of
           (Inl save_error, s2) \<Rightarrow> s2
         | (Inr _, s2) \<Rightarrow> s2)"

definition process_s3_user_video_analysis ::
  "env \<Rightarrow> string \<Rightarrow> string \<Rightarrow> string \<Rightarrow> string \<Rightarrow> string \<Rightarrow> string option \<Rightarrow> state \<Rightarrow> state" where
  "process_s3_user_video_analysis env aid s3_bucket s3_key uid qnum sid s =
     (case analysis_try env aid s3_bucket s3_key uid qnum sid s of
        (Inr _, s') \<Rightarrow> s'
      | (Inl e, s') \<Rightarrow> analysis_except env aid uid qnum sid e s')"

text \<open>
  The result of the \<^verbatim>\<open>try\<close> block of a run: \<open>None\<close> when it reached its end, the
  exception that left it otherwise.
\<close>

definition job_failure ::
  "env \<Rightarrow> string \<Rightarrow> string \<Rightarrow> string \<Rightarrow> string \<Rightarrow> string \<Rightarrow> string option \<Rightarrow> state \<Rightarrow> exn option" where
  "job_failure env aid s3_bucket s3_key uid qnum sid s =
     (case fst (analysis_try env aid s3_bucket s3_key uid qnum sid s) of
        Inl e \<Rightarrow> Some e
      | Inr _ \<Rightarrow> None)"

text \<open>The progress values of the status updates a run emitted for its analysis.\<close>

definition published_progress :: "string \<Rightarrow> state \<Rightarrow> state \<Rightarrow> real list" where
  "published_progress aid s s' =
     map su_progress
       (filter (\<lambda>u. su_analysis_id u = aid) (drop (length (status_updates s)) (status_updates s')))"

section \<open>The single-unit trigger\<close>

text \<open>
  \<^verbatim>\<open>analyze_s3_user_video\<close> (lines 149-190). The \<^verbatim>\<open>HTTPException(404)\<close> is raised
  inside the \<^verbatim>\<open>try\<close> block whose only handler is \<^verbatim>\<open>except Exception\<close>, which raises
  \<^verbatim>\<open>HTTPException(500)\<close> with the text of what it caught.
\<close>

record S3UserVideoRequest =
  req_user_id :: string
  req_question_num :: string
  req_session_id :: "string option"

record AnalysisResponse =
  resp_analysis_id :: string
  resp_status :: string
  resp_message :: string

record background_task =
  bt_analysis_id :: string
  bt_bucket :: string
  bt_key :: string
  bt_user_id :: string
  bt_question_num :: string
  bt_session_id :: string

definition analyze_s3_user_video_try ::
  "env \<Rightarrow> S3UserVideoRequest \<Rightarrow> state \<Rightarrow> exn + (AnalysisResponse \<times> background_task)" where
  "analyze_s3_user_video_try env request s =
     (let aid = ''manual_s3_analysis_'' @ req_user_id request @ ''_'' @ req_question_num request
                  @ ''_'' @ strftime env (clock s)
      in case find_video_file env (bucket_name env) (req_user_id request) (req_question_num request) of
           Inl e \<Rightarrow> Inl e
         | Inr video_key \<Rightarrow>
             (if video_key = None \<or> video_key = Some []
              then Inl (HTTPException 404
                     (''no video file found for user '' @ req_user_id request @ '', question ''
                        @ req_question_num request))
              else Inr (\<lparr> resp_analysis_id = aid, resp_status = ''processing'',
                          resp_message = ''analysis started for user '' @ req_user_id request
                             @ '', question '' @ req_question_num request \<rparr>,
                        \<lparr> bt_analysis_id = aid, bt_bucket = bucket_name env,
                          bt_key = (case video_key of Some k \<Rightarrow> k | None \<Rightarrow> []),
                          bt_user_id = req_user_id request,
                          bt_question_num = req_question_num request,
                          bt_session_id =
                            (case req_session_id request of
                               None \<Rightarrow> ''manual''
                             | Some sid \<Rightarrow> if sid = [] then ''manual'' else sid) \<rparr>)))"

definition analyze_s3_user_video ::
  "env \<Rightarrow> S3UserVideoRequest \<Rightarrow> state \<Rightarrow> exn + (AnalysisResponse \<times> background_task)" where
  "analyze_s3_user_video env request s =
     (case analyze_s3_user_video_try env request s of
        Inl e \<Rightarrow> Inl (HTTPException 500 (''failed to start analysis: '' @ str_exn e))
      | Inr r \<Rightarrow> Inr r)"

section \<open>The batch drain: \<^verbatim>\<open>process_gpt_batch\<close>\<close>

text \<open>
  Lines 1317-1322 run without an \<^verbatim>\<open>await\<close>: the guard, the setting of the flag, the copy
  of the queue and its replacement by a fresh list are one step of the event loop.
  \<open>drain_begin\<close> is that step; \<open>None\<close> is the early \<^verbatim>\<open>return\<close>.
\<close>

definition drain_begin :: "state \<Rightarrow> (queue_entry list \<times> state) option" where
  "drain_begin s =
     (if batch_processing_active s \<or> pending_gpt_analyses s = [] then None
      else Some (pending_gpt_analyses s,
                 s\<lparr>batch_processing_active := True, pending_gpt_analyses := []\<rparr>))"

text \<open>The \<^verbatim>\<open>finally\<close> clause (line 1427).\<close>

definition drain_end :: "state \<Rightarrow> state" where
  "drain_end s = s\<lparr>batch_processing_active := False\<rparr>"

text \<open>
  One item (lines 1329-1416). The inner \<^verbatim>\<open>try\<close> around the save prints and drops its
  exception; every other exception of the item reaches the handler of the loop body
  (line 1418), which prints and continues.
\<close>

definition attitude_of_doc :: "job_record \<Rightarrow> string \<Rightarrow> string \<Rightarrow> interview_attitude" where
  "attitude_of_doc doc uid qnum =
     \<lparr> ia_user_id = uid,
       ia_question_num = qnum,
       ia_emotion_score =
         (case emotion_analysis doc of
            None \<Rightarrow> 0
          | Some em \<Rightarrow> (case interview_score em of None \<Rightarrow> 0 | Some v \<Rightarrow> v)),
       ia_eye_score =
         (case eye_tracking_analysis doc of
            None \<Rightarrow> 0
          | Some eye \<Rightarrow>
              (case gaze_basic_scores eye of
                 None \<Rightarrow> 0
               | Some b \<Rightarrow> (case total_eye_score b of None \<Rightarrow> 0 | Some v \<Rightarrow> v))),
       ia_suspected_copying = batch_suspected_copying doc,
       ia_suspected_impersonation = batch_suspected_impersonation doc,
       ia_gpt_analysis =
         \<lparr> strength_keyword = ''good interview attitude, excellent concentration'',
           weakness_keyword =
             (if batch_suspected_copying doc then ''wandering gaze, suspected cheating''
              else ''needs improvement'') \<rparr> \<rparr>"

definition gpt_batch_item_try :: "env \<Rightarrow> nat \<Rightarrow> nat \<Rightarrow> queue_entry \<Rightarrow> unit action" where
  "gpt_batch_item_try env i n item =
     and_then (call_unit (db_read env (qe_analysis_id item))) (\<lambda>_.
     (\<lambda>s. case find_one (qe_analysis_id item) (analysis_results s) of
        None \<Rightarrow> (Inr (), s)
      | Some doc \<Rightarrow>
          (case (emotion_analysis doc, eye_tracking_analysis doc) of
             (Some emotion, Some eye) \<Rightarrow>
               (if \<not> emotion_truthy emotion \<or> \<not> gaze_truthy eye then (Inr (), s)
                else
                  and_then (call (analyze_interview_results env emotion eye
                                    (qe_user_id item) (qe_question_num item))) (\<lambda>comment.
                  and_then (\<lambda>s1. case save_attitude env
                                      (attitude_of_doc doc (qe_user_id item) (qe_question_num item)) s1 of
                                   (Inl mariadb_error, s2) \<Rightarrow> (Inr (), s2)
                                 | (Inr _, s2) \<Rightarrow> (Inr (), s2)) (\<lambda>_.
                  effect (\<lambda>s3. if i < n then sleep 1 s3 else s3))) s)
           | _ \<Rightarrow> (Inr (), s))))"

definition gpt_batch_item :: "env \<Rightarrow> nat \<Rightarrow> nat \<Rightarrow> queue_entry \<Rightarrow> state \<Rightarrow> state" where
  "gpt_batch_item env i n item s =
     (case gpt_batch_item_try env i n item s of
        (Inl e, s') \<Rightarrow> s'
      | (Inr _, s') \<Rightarrow> s')"

text \<open>
  The loop over the snapshot, counting from 1 as \<^verbatim>\<open>enumerate(batch_to_process, 1)\<close>. It
  returns the exception that left the \<^verbatim>\<open>try\<close> block, when one did; the outer handler
  (line 1424) prints it.
\<close>

fun gpt_batch_loop :: "env \<Rightarrow> nat \<Rightarrow> nat \<Rightarrow> queue_entry list \<Rightarrow> state \<Rightarrow> exn option \<times> state" where
  "gpt_batch_loop env i n [] s = (top_level_fault env i, s)"
| "gpt_batch_loop env i n (item # rest) s =
     (case top_level_fault env i of
        Some e \<Rightarrow> (Some e, s)
      | None \<Rightarrow> gpt_batch_loop env (Suc i) n rest (gpt_batch_item env i n item s))"

definition process_gpt_batch :: "env \<Rightarrow> state \<Rightarrow> state" where
  "process_gpt_batch env s =
     (case drain_begin s of
        None \<Rightarrow> s
      | Some (batch_to_process, s1) \<Rightarrow>
          drain_end (snd (gpt_batch_loop env 1 (length batch_to_process) batch_to_process s1)))"

text \<open>The exit path a drain took: not started, ended by exhausting the snapshot, or ended by an
  exception at the top level of its \<^verbatim>\<open>try\<close> block.\<close>

datatype drain_exit = NotStarted | Exhausted | TopLevelException exn

definition drain_exit_of :: "env \<Rightarrow> state \<Rightarrow> drain_exit" where
  "drain_exit_of env s =
     (case drain_begin s of
        None \<Rightarrow> NotStarted
      | Some (batch_to_process, s1) \<Rightarrow>
          (case fst (gpt_batch_loop env 1 (length batch_to_process) batch_to_process s1) of
             None \<Rightarrow> Exhausted
           | Some e \<Rightarrow> TopLevelException e))"

section \<open>Drains, triggers and enqueues interleaved on the event loop\<close>

text \<open>
  The coroutines of the module run on one event loop and give way to each other only at an
  \<^verbatim>\<open>await\<close>. A triggered \<^verbatim>\<open>process_gpt_batch\<close> is a task in one of three phases:
  triggered and not yet run, inside its loop with its snapshot and the number of items it
  has taken, or returned. A step of the system is one of: an enqueue
  (\<^verbatim>\<open>add_to_gpt_batch_queue\<close>), a new trigger, the first step of a triggered task
  (\<open>drain_begin\<close>), one item of a task in its loop, the end of a task in its loop (the
  \<^verbatim>\<open>finally\<close> clause, after the last item or after an exception at the top level), or a
  step of any other coroutine, none of which assigns the queue or the flag. One item of a
  drain is taken as one step: it awaits its collaborators, but it neither reads nor writes
  the queue or the flag, which are all that the properties of the interleaving speak of.
\<close>

datatype task = Triggered | Draining "queue_entry list" nat | Returned

datatype label =
    Enqueue queue_entry
  | Trigger
  | Begin nat
  | Item nat queue_entry
  | End nat
  | Other

fun is_draining :: "task \<Rightarrow> bool" where
  "is_draining (Draining batch k) = True"
| "is_draining Triggered = False"
| "is_draining Returned = False"

inductive step :: "env \<Rightarrow> state \<times> task list \<Rightarrow> label \<Rightarrow> state \<times> task list \<Rightarrow> bool"
  for env :: env where
  enqueue:
    "s' = add_to_gpt_batch_queue aid uid qnum s \<Longrightarrow>
     e = last (pending_gpt_analyses s') \<Longrightarrow>
     step env (s, ts) (Enqueue e) (s', ts)"
| trigger:
    "step env (s, ts) Trigger (s, ts @ [Triggered])"
| begin_noop:
    "i < length ts \<Longrightarrow> ts ! i = Triggered \<Longrightarrow> drain_begin s = None \<Longrightarrow>
     step env (s, ts) (Begin i) (s, ts[i := Returned])"
| begin_drain:
    "i < length ts \<Longrightarrow> ts ! i = Triggered \<Longrightarrow> drain_begin s = Some (batch, s') \<Longrightarrow>
     step env (s, ts) (Begin i) (s', ts[i := Draining batch 0])"
| item:
    "i < length ts \<Longrightarrow> ts ! i = Draining batch k \<Longrightarrow> k < length batch \<Longrightarrow>
     top_level_fault env (Suc k) = None \<Longrightarrow>
     step env (s, ts) (Item i (batch ! k))
       (gpt_batch_item env (Suc k) (length batch) (batch ! k) s, ts[i := Draining batch (Suc k)])"
| finish:
    "i < length ts \<Longrightarrow> ts ! i = Draining batch k \<Longrightarrow>
     k = length batch \<or> top_level_fault env (Suc k) \<noteq> None \<Longrightarrow>
     step env (s, ts) (End i) (drain_end s, ts[i := Returned])"
| other:
    "pending_gpt_analyses s' = pending_gpt_analyses s \<Longrightarrow>
     batch_processing_active s' = batch_processing_active s \<Longrightarrow>
     step env (s, ts) Other (s', ts)"

inductive steps :: "env \<Rightarrow> state \<times> task list \<Rightarrow> label list \<Rightarrow> state \<times> task list \<Rightarrow> bool"
  for env :: env where
  steps_nil: "steps env c [] c"
| steps_snoc: "steps env c tr c' \<Longrightarrow> step env c' l c'' \<Longrightarrow> steps env c (tr @ [l]) c''"

fun enqueued :: "label list \<Rightarrow> queue_entry list" where
  "enqueued [] = []"
| "enqueued (Enqueue e # tr) = e # enqueued tr"
| "enqueued (l # tr) = enqueued tr"

fun items_of :: "nat \<Rightarrow> label list \<Rightarrow> queue_entry list" where
  "items_of i [] = []"
| "items_of i (Item j e # tr) = (if j = i then e # items_of i tr else items_of i tr)"
| "items_of i (l # tr) = items_of i tr"

definition single_flight :: "state \<times> task list \<Rightarrow> bool" where
  "single_flight c \<longleftrightarrow>
     length (filter is_draining (snd c)) = (if batch_processing_active (fst c) then 1 else 0)"

section \<open>The scan: \<^verbatim>\<open>auto_analyze_all_s3_videos\<close>\<close>

text \<open>
  The loop over the pending units (lines 1241-1274). The body of one unit is a \<^verbatim>\<open>try\<close>
  whose handler prints and continues; \<^verbatim>\<open>process_s3_user_video_analysis\<close> handles its own
  exceptions, so only the search for the file can reach that handler. A unit whose file is
  not found is skipped. After a job the loop sleeps two seconds.
\<close>

definition auto_analysis_id :: "env \<Rightarrow> string \<Rightarrow> string \<Rightarrow> state \<Rightarrow> string" where
  "auto_analysis_id env uid qnum s =
     ''auto_s3_analysis_'' @ uid @ ''_'' @ qnum @ ''_'' @ strftime env (clock s)"

definition scan_unit :: "env \<Rightarrow> string \<Rightarrow> string \<times> string \<Rightarrow> state \<Rightarrow> state" where
  "scan_unit env bucket unit s =
     (case unit of (uid, qnum) \<Rightarrow>
        (case find_video_file env bucket uid qnum of
           Inl e \<Rightarrow> s
         | Inr None \<Rightarrow> s
         | Inr (Some video_key) \<Rightarrow>
             (if video_key = [] then s
              else sleep 2 (process_s3_user_video_analysis env (auto_analysis_id env uid qnum s)
                              bucket video_key uid qnum (Some ''auto_batch'') s))))"

fun scan_loop :: "env \<Rightarrow> string \<Rightarrow> (string \<times> string) list \<Rightarrow> state \<Rightarrow> state" where
  "scan_loop env bucket [] s = s"
| "scan_loop env bucket (unit # units) s = scan_loop env bucket units (scan_unit env bucket unit s)"

text \<open>
  \<^verbatim>\<open>check_and_trigger_gpt_batch\<close> (lines 1429-1463) lists and dedups again and drains when
  nothing is pending and the queue is not empty. Every exception ends it silently.
\<close>

definition check_and_trigger_gpt_batch :: "env \<Rightarrow> state \<Rightarrow> state" where
  "check_and_trigger_gpt_batch env s =
     (case list_available_users_and_questions env ''skala25a'' of
        Inl e \<Rightarrow> s
      | Inr available \<Rightarrow>
          (case db_scan env of
             Some e \<Rightarrow> s
           | None \<Rightarrow>
               (if pending_units available (analysis_results s) = [] \<and> pending_gpt_analyses s \<noteq> []
                then process_gpt_batch env s else s)))"

definition auto_analyze_all_s3_videos :: "env \<Rightarrow> state \<Rightarrow> state" where
  "auto_analyze_all_s3_videos env s =
     (case list_available_users_and_questions env ''skala25a'' of
        Inl e \<Rightarrow> s
      | Inr available \<Rightarrow>
          (case db_scan env of
             Some e \<Rightarrow> s
           | None \<Rightarrow>
               (if pending_units available (analysis_results s) = [] then s
                else check_and_trigger_gpt_batch env
                       (scan_loop env ''skala25a'' (pending_units available (analysis_results s)) s))))"

text \<open>
  The state in which the scan takes the unit at a position, and what became of that unit:
  skipped (no file, or the search raised), or a job that ran under an analysis id with the
  result of its \<^verbatim>\<open>try\<close> block.
\<close>

definition state_before :: "env \<Rightarrow> string \<Rightarrow> (string \<times> string) list \<Rightarrow> nat \<Rightarrow> state \<Rightarrow> state" where
  "state_before env bucket units k s = scan_loop env bucket (take k units) s"

datatype unit_result = Skipped | Ran string "exn option"

definition unit_result_of :: "env \<Rightarrow> string \<Rightarrow> string \<times> string \<Rightarrow> state \<Rightarrow> unit_result" where
  "unit_result_of env bucket unit s =
     (case unit of (uid, qnum) \<Rightarrow>
        (case find_video_file env bucket uid qnum of
           Inl e \<Rightarrow> Skipped
         | Inr None \<Rightarrow> Skipped
         | Inr (Some video_key) \<Rightarrow>
             (if video_key = [] then Skipped
              else Ran (auto_analysis_id env uid qnum s)
                     (job_failure env (auto_analysis_id env uid qnum s) bucket video_key uid qnum
                        (Some ''auto_batch'') s))))"

definition stored_status :: "string \<Rightarrow> state \<Rightarrow> string option" where
  "stored_status aid s = map_option status (find_one aid (analysis_results s))"

definition stored_error :: "string \<Rightarrow> state \<Rightarrow> string option" where
  "stored_error aid s = Option.bind (find_one aid (analysis_results s)) error"

section \<open>An example deployment\<close>

text \<open>
  One user with three questions, no stored documents, collaborators that answer, and an
  eye-tracking analyzer that raises on the second question. The scores are those of the
  fixture in \<^verbatim>\<open>test_yaml_all_features\<close>.
\<close>

definition example_gaze :: "int \<Rightarrow> bool \<Rightarrow> gaze_result" where
  "example_gaze n multi =
     \<lparr> gaze_basic_scores = Some \<lparr> total_eye_score = Some 28, concentration_score = Some 15,
                                  stability_score = Some 8, blink_score = Some 5,
                                  eye_improvement_suggestions = None \<rparr>,
       gaze_analysis_summary = Some \<lparr> total_violations = Some n,
                                      face_multiple_detected = Some multi \<rparr>,
       attention_score = Some 25,
       gaze_other_keys = [''blink_count''] \<rparr>"

definition example_emotion :: emotion_result where
  "example_emotion =
     \<lparr> interview_score = Some 45, emotion_detailed_analysis = None,
       emotion_other_keys = [''dominant_emotion''] \<rparr>"

definition example_env :: env where
  "example_env =
     \<lparr> getenv_bucket = None,
       temp_upload_dir = ''./src/temp_uploads'',
       strftime = (\<lambda>t. ''20250617_'' @ show_nat t),
       find_video_file = (\<lambda>bucket uid qnum.
          if uid = ''iv001'' then Inr (Some (uid @ ''/'' @ qnum @ ''.webm'')) else Inr None),
       list_available_users_and_questions = (\<lambda>bucket. Inr [(''iv001'', [''Q1'', ''Q2'', ''Q3''])]),
       makedirs = (\<lambda>dir. None),
       download_file = (\<lambda>bucket key dir. Inr (dir @ ''/'' @ key)),
       emotion_analyze_video = (\<lambda>path. Inr example_emotion),
       eye_analyze_video = (\<lambda>path uid qnum key.
          if qnum = ''Q2'' then Inl (Exception ''scoring failed'')
          else Inr (example_gaze 5 False)),
       getsize = (\<lambda>path. 1024),
       db_write = (\<lambda>doc. None),
       db_read = (\<lambda>aid. None),
       db_scan = None,
       status_session = (\<lambda>aid st stage progress. None),
       analyze_keywords = (\<lambda>d. Inr \<lparr> strength_keyword = ''stable'', weakness_keyword = ''none'' \<rparr>),
       save_interview_attitude = (\<lambda>row. None),
       analyze_interview_results = (\<lambda>emotion eye uid qnum.
          Inr \<lparr> overall_feedback = ''good'', overall_score = 73 \<rparr>),
       top_level_fault = (\<lambda>i. None) \<rparr>"

definition example_state :: state where
  "example_state =
     \<lparr> analysis_results = [], pending_gpt_analyses = [], batch_processing_active = False,
       interview_attitudes = [], status_updates = [], clock = 0 \<rparr>"

definition example_units :: "(string \<times> string) list" where
  "example_units = [(''iv001'', ''Q1''), (''iv001'', ''Q2''), (''iv001'', ''Q3'')]"

definition example_doc :: "string \<Rightarrow> string \<Rightarrow> string \<Rightarrow> job_record" where
  "example_doc uid qnum st =
     \<lparr> analysis_id = ''auto_s3_analysis_'' @ uid @ ''_'' @ qnum @ ''_20250617_0'',
       user_id = Some uid, question_num = Some qnum, session_id = Some ''auto_batch'',
       jr_video_info = None, emotion_analysis = None, eye_tracking_analysis = None,
       jr_cheating_detection = None, status = st, error = None, created_at = 0,
       completed_at = None, failed_at = None \<rparr>"

definition example_entry :: "string \<Rightarrow> string \<Rightarrow> queue_entry" where
  "example_entry aid qnum =
     \<lparr> qe_analysis_id = aid, qe_user_id = ''iv001'', qe_question_num = qnum, qe_added_at = 0 \<rparr>"

text \<open>
  States of a drain of the example: one entry queued, the drain begun on it, a second
  entry enqueued while the drain runs, and the drain ended. \<open>example_faulty_env\<close> raises at
  the top level of the drain before its first item; \<open>example_failing_sink\<close> fails every
  status write.
\<close>

definition example_queued :: state where
  "example_queued = add_to_gpt_batch_queue ''a1'' ''iv001'' ''Q1'' example_state"

definition example_draining :: state where
  "example_draining = example_queued\<lparr>batch_processing_active := True, pending_gpt_analyses := []\<rparr>"

definition example_late :: state where
  "example_late = add_to_gpt_batch_queue ''a3'' ''iv001'' ''Q3'' example_draining"

definition example_drained :: state where
  "example_drained = drain_end example_late"

definition example_faulty_env :: env where
  "example_faulty_env =
     example_env\<lparr>top_level_fault :=
       (\<lambda>i. if i = 1 then Some (Exception ''print failed'') else None)\<rparr>"

definition example_failing_sink :: "string \<Rightarrow> string \<Rightarrow> string option \<Rightarrow> real \<Rightarrow> exn option" where
  "example_failing_sink aid st stage progress = Some (Exception ''database unreachable'')"

section \<open>Auxiliary notions for the proofs\<close>

text \<open>The update that a call of \<^verbatim>\<open>update_analysis_status\<close> appends.\<close>

definition emitted_update :: "env \<Rightarrow> string \<Rightarrow> string \<Rightarrow> string option \<Rightarrow> real \<Rightarrow> status_update" where
  "emitted_update env aid st stage p =
     \<lparr> su_analysis_id = aid, su_status = st, su_stage = (if stage = Some [] then None else stage),
       su_progress = p, su_write_error = map_option str_exn (status_session env aid st stage p) \<rparr>"

text \<open>
  What a job leaves alone: the clock, the flag, the documents of other analyses; the queue
  and the list of status updates only grow.
\<close>

definition job_frame :: "string \<Rightarrow> state \<Rightarrow> state \<Rightarrow> bool" where
  "job_frame aid s s' \<longleftrightarrow>
     clock s' = clock s \<and>
     batch_processing_active s' = batch_processing_active s \<and>
     prefix (pending_gpt_analyses s) (pending_gpt_analyses s') \<and>
     prefix (status_updates s) (status_updates s') \<and>
     (\<forall>a. a \<noteq> aid \<longrightarrow> find_one a (analysis_results s') = find_one a (analysis_results s))"

definition preserves :: "(state \<Rightarrow> state \<Rightarrow> bool) \<Rightarrow> 'a action \<Rightarrow> bool" where
  "preserves R m \<longleftrightarrow> (\<forall>s. R s (snd (m s)))"

text \<open>
  Two states with the same outcome: they agree on everything but the record of which
  status writes failed.
\<close>

definition erase_write_error :: "status_update \<Rightarrow> status_update" where
  "erase_write_error u = u\<lparr>su_write_error := None\<rparr>"

definition same_outcome :: "state \<Rightarrow> state \<Rightarrow> bool" where
  "same_outcome s1 s2 \<longleftrightarrow>
     analysis_results s1 = analysis_results s2 \<and>
     pending_gpt_analyses s1 = pending_gpt_analyses s2 \<and>
     batch_processing_active s1 = batch_processing_active s2 \<and>
     interview_attitudes s1 = interview_attitudes s2 \<and>
     clock s1 = clock s2 \<and>
     map erase_write_error (status_updates s1) = map erase_write_error (status_updates s2)"

definition sim_action :: "'a action \<Rightarrow> 'a action \<Rightarrow> bool" where
  "sim_action m1 m2 \<longleftrightarrow>
     (\<forall>s1 s2. same_outcome s1 s2 \<longrightarrow>
        fst (m1 s1) = fst (m2 s2) \<and> same_outcome (snd (m1 s1)) (snd (m2 s2)))"

text \<open>The phases of a task in the order a task passes through them.\<close>

fun rank :: "task \<Rightarrow> nat" where
  "rank Triggered = 0"
| "rank (Draining batch k) = 1"
| "rank Returned = 2"

text \<open>The analysis ids under which the scan of a list of units runs jobs, in order.\<close>

fun scan_ids :: "env \<Rightarrow> string \<Rightarrow> (string \<times> string) list \<Rightarrow> state \<Rightarrow> string list" where
  "scan_ids env bucket [] s = []"
| "scan_ids env bucket (unit # units) s =
     (case unit_result_of env bucket unit s of
        Skipped \<Rightarrow> scan_ids env bucket units (scan_unit env bucket unit s)
      | Ran aid r \<Rightarrow> aid # scan_ids env bucket units (scan_unit env bucket unit s))"

inductive_cases step_BeginE: "step env c (Begin i) c'"
inductive_cases step_EndE: "step env c (End i) c'"

section \<open>Properties of one job\<close>

lemma and_then_Inr:
  "and_then m f s = (Inr v, s') \<longleftrightarrow> (\<exists>x s1. m s = (Inr x, s1) \<and> f x s1 = (Inr v, s'))"
  by (auto simp: and_then_def split: prod.splits sum.splits)

lemma find_one_replace_other:
  "a \<noteq> aid \<Longrightarrow> analysis_id doc = aid \<Longrightarrow> find_one a (replace_one aid doc ds) = find_one a ds"
  by (induction ds) auto

lemma find_one_replace_same:
  "analysis_id doc = aid \<Longrightarrow> find_one aid (replace_one aid doc ds) = Some doc"
  by (induction ds) auto

lemma update_analysis_status_eq:
  "update_analysis_status env aid st stage p s =
     s\<lparr>status_updates := status_updates s @ [emitted_update env aid st stage p]\<rparr>"
  by (simp add: update_analysis_status_def emitted_update_def Let_def split: option.splits)

lemma emitted_update_sel [simp]:
  "su_analysis_id (emitted_update env aid st stage p) = aid"
  "su_progress (emitted_update env aid st stage p) = p"
  "su_status (emitted_update env aid st stage p) = st"
  by (simp_all add: emitted_update_def)

lemma job_frame_refl: "job_frame aid s s"
  by (simp add: job_frame_def)

lemma job_frame_trans: "job_frame aid s s1 \<Longrightarrow> job_frame aid s1 s2 \<Longrightarrow> job_frame aid s s2"
  by (auto simp: job_frame_def intro: prefix_order.trans)

lemma preserves_and_then:
  assumes "preserves (job_frame aid) m" and "\<And>x. preserves (job_frame aid) (f x)"
  shows "preserves (job_frame aid) (and_then m f)"
  unfolding preserves_def
proof
  fix s
  obtain r s1 where ms: "m s = (r, s1)" by (cases "m s")
  have first: "job_frame aid s s1"
    using assms(1) ms by (auto simp: preserves_def dest: spec[of _ s])
  show "job_frame aid s (snd (and_then m f s))"
  proof (cases r)
    case (Inl e)
    then show ?thesis using ms first by (simp add: and_then_def)
  next
    case (Inr x)
    have "job_frame aid s1 (snd (f x s1))"
      using assms(2)[of x] by (simp add: preserves_def)
    then show ?thesis
      using ms Inr first by (auto simp: and_then_def intro: job_frame_trans)
  qed
qed

lemma preserves_call: "preserves (job_frame aid) (call r)"
  by (simp add: preserves_def call_def job_frame_refl)

lemma preserves_call_unit: "preserves (job_frame aid) (call_unit r)"
  by (simp add: preserves_def call_unit_def job_frame_refl split: option.splits)

lemma preserves_status:
  "preserves (job_frame aid) (effect (update_analysis_status env a st stage p))"
  by (simp add: preserves_def effect_def update_analysis_status_eq job_frame_def)

lemma preserves_enqueue: "preserves (job_frame aid) (effect (add_to_gpt_batch_queue a u q))"
  by (simp add: preserves_def effect_def add_to_gpt_batch_queue_def job_frame_def)

lemma preserves_upsert:
  "analysis_id doc = aid \<Longrightarrow> preserves (job_frame aid) (upsert_job env doc)"
  by (simp add: preserves_def upsert_job_def job_frame_def find_one_replace_other
        split: option.splits)

lemma preserves_save: "preserves (job_frame aid) (save_attitude env row)"
  by (simp add: preserves_def save_attitude_def job_frame_def split: option.splits)

lemmas preserves_intros = preserves_and_then preserves_call preserves_call_unit preserves_status
  preserves_enqueue preserves_upsert preserves_save

lemma preserves_scoring: "preserves (job_frame aid) (scoring_stages env aid b k u q)"
  unfolding scoring_stages_def by (intro preserves_intros)

lemma preserves_persist: "preserves (job_frame aid) (persist_stages env aid b k u q sid p em gz)"
  unfolding persist_stages_def
  apply (intro preserves_intros)
  apply (simp add: preserves_def)
  apply (rule allI)
  subgoal for s
    using preserves_upsert[of "analysis_data env aid b k u q sid p em gz (clock s)" aid env]
    by (simp add: preserves_def analysis_data_def)
  done

lemma preserves_try: "preserves (job_frame aid) (analysis_try env aid b k u q sid)"
  unfolding analysis_try_def
  by (intro preserves_and_then preserves_scoring) (auto simp: preserves_persist)

lemma try_frame: "job_frame aid s (snd (analysis_try env aid b k u q sid s))"
  using preserves_try[of aid env b k u q sid] by (simp add: preserves_def)

lemma scoring_success:
  assumes "scoring_stages env aid b k u q s = (Inr v, s')"
  shows "s' = s\<lparr>status_updates := status_updates s @
           [emitted_update env aid ''processing'' (Some ''download'') 10,
            emitted_update env aid ''processing'' (Some ''emotion_analysis'') 30,
            emitted_update env aid ''processing'' (Some ''eye_tracking'') 60]\<rparr>"
  using assms unfolding scoring_stages_def
  by (clarsimp simp: and_then_Inr effect_def call_def call_unit_def update_analysis_status_eq
        split: option.splits)

lemma persist_success:
  assumes "persist_stages env aid b k u q sid p em gz s = (Inr v, s')"
  shows "status_updates s' = status_updates s @
           [emitted_update env aid ''processing'' (Some ''save_results'') 80,
            emitted_update env aid ''completed'' (Some ''completed'') 100]"
    and "find_one aid (analysis_results s') =
           Some (analysis_data env aid b k u q sid p em gz (clock s))"
  using assms unfolding persist_stages_def
  by (auto simp: and_then_Inr effect_def call_def call_unit_def update_analysis_status_eq
        upsert_job_def save_attitude_def add_to_gpt_batch_queue_def find_one_replace_same
        analysis_data_def split: option.splits)

lemma try_success:
  assumes "analysis_try env aid b k u q sid s = (Inr v, s')"
  shows "status_updates s' = status_updates s @
           [emitted_update env aid ''processing'' (Some ''download'') 10,
            emitted_update env aid ''processing'' (Some ''emotion_analysis'') 30,
            emitted_update env aid ''processing'' (Some ''eye_tracking'') 60,
            emitted_update env aid ''processing'' (Some ''save_results'') 80,
            emitted_update env aid ''completed'' (Some ''completed'') 100]"
    and "\<exists>d g. find_one aid (analysis_results s') = Some d \<and> status d = ''completed'' \<and>
               eye_tracking_analysis d = Some g \<and>
               jr_cheating_detection d = Some (cheating_detection_of g)"
  using assms unfolding analysis_try_def
  by (auto simp: and_then_Inr analysis_data_def dest!: scoring_success dest: persist_success)

lemma except_status_updates:
  "status_updates (analysis_except env aid u q sid e s) =
     status_updates s @ [emitted_update env aid ''failed'' (Some ''error'') 0]"
  by (simp add: analysis_except_def upsert_job_def update_analysis_status_eq Let_def
        split: option.splits)

lemma except_record:
  "db_write env (error_data aid u q sid e (clock s)) = None \<Longrightarrow>
   find_one aid (analysis_results (analysis_except env aid u q sid e s)) =
     Some (error_data aid u q sid e (clock s))"
  by (simp add: analysis_except_def upsert_job_def update_analysis_status_eq Let_def
        find_one_replace_same error_data_def)

lemma except_frame: "job_frame aid s (analysis_except env aid u q sid e s)"
  by (simp add: analysis_except_def upsert_job_def update_analysis_status_eq Let_def
        job_frame_def find_one_replace_other error_data_def split: option.splits)

lemma failed_run:
  assumes "job_failure env aid b k u q sid s = Some e"
  shows "process_s3_user_video_analysis env aid b k u q sid s =
           analysis_except env aid u q sid e (snd (analysis_try env aid b k u q sid s))"
  using assms
  by (auto simp: job_failure_def process_s3_user_video_analysis_def
        split: sum.splits prod.splits)

lemma completed_run:
  assumes "job_failure env aid b k u q sid s = None"
  shows "analysis_try env aid b k u q sid s =
           (Inr (), process_s3_user_video_analysis env aid b k u q sid s)"
  using assms
  by (auto simp: job_failure_def process_s3_user_video_analysis_def
        split: sum.splits prod.splits)

lemma process_frame: "job_frame aid s (process_s3_user_video_analysis env aid b k u q sid s)"
proof (cases "job_failure env aid b k u q sid s")
  case None
  from completed_run[OF None] try_frame[of aid s env b k u q sid] show ?thesis by simp
next
  case (Some e)
  show ?thesis unfolding failed_run[OF Some]
    by (rule job_frame_trans[OF try_frame except_frame])
qed

lemmas run_unfold = job_failure_def analysis_try_def scoring_stages_def persist_stages_def
  and_then_def effect_def call_def call_unit_def upsert_job_def save_attitude_def
  update_analysis_status_def add_to_gpt_batch_queue_def concentration_of_def Let_def

lemma example_job_completes:
  "job_failure example_env ''a1'' ''skala25a'' ''iv001/Q1.webm'' ''iv001'' ''Q1''
     (Some ''auto_batch'') example_state = None"
  by (simp add: run_unfold example_env_def example_state_def example_gaze_def)

lemma example_job_fails:
  "job_failure example_env ''a2'' ''skala25a'' ''iv001/Q2.webm'' ''iv001'' ''Q2''
     (Some ''auto_batch'') example_state = Some (Exception ''scoring failed'')"
  by (simp add: run_unfold example_env_def example_state_def example_gaze_def)

section \<open>Cheat signals of a completed job\<close>



section \<open>Progress of a job\<close>

text \<open>
  Claim C7. The progress values published by the status updates of a job whose \<^verbatim>\<open>try\<close>
  block completes are 10, 30, 60, 80, 100, a non-decreasing sequence (the persisting stage
  publishes 80; the definition in force publishes no 95). When the \<^verbatim>\<open>try\<close> block is
  left by an exception, at whatever stage, the last progress value published is 0.
\<close>

theorem progress_sequence:
  "(job_failure env aid b k u q sid s = None \<longrightarrow>
      published_progress aid s (process_s3_user_video_analysis env aid b k u q sid s)
        = [10, 30, 60, 80, 100] \<and>
      sorted (published_progress aid s (process_s3_user_video_analysis env aid b k u q sid s))) \<and>
   (job_failure env aid b k u q sid s \<noteq> None \<longrightarrow>
      published_progress aid s (process_s3_user_video_analysis env aid b k u q sid s) \<noteq> [] \<and>
      last (published_progress aid s (process_s3_user_video_analysis env aid b k u q sid s)) = 0)"
proof (intro conjI impI)
  assume ok: "job_failure env aid b k u q sid s = None"
  from try_success(1)[OF completed_run[OF ok]]
  show eq: "published_progress aid s (process_s3_user_video_analysis env aid b k u q sid s)
        = [10, 30, 60, 80, 100]"
    by (simp add: published_progress_def)
  show "sorted (published_progress aid s (process_s3_user_video_analysis env aid b k u q sid s))"
    unfolding eq by simp
next
  assume "job_failure env aid b k u q sid s \<noteq> None"
  then obtain e where e: "job_failure env aid b k u q sid s = Some e" by auto
  let ?s1 = "snd (analysis_try env aid b k u q sid s)"
  from try_frame[of aid s env b k u q sid]
  obtain ext where ext: "status_updates ?s1 = status_updates s @ ext"
    by (auto simp: job_frame_def prefix_def)
  have pp: "published_progress aid s (process_s3_user_video_analysis env aid b k u q sid s)
      = map su_progress (filter (\<lambda>u. su_analysis_id u = aid) ext) @ [0]"
    unfolding failed_run[OF e] by (simp add: published_progress_def except_status_updates ext)
  show "published_progress aid s (process_s3_user_video_analysis env aid b k u q sid s) \<noteq> []"
    unfolding pp by simp
  show "last (published_progress aid s (process_s3_user_video_analysis env aid b k u q sid s)) = 0"
    unfolding pp by simp
qed

theorem progress_sequence_witness:
  "job_failure example_env ''a1'' ''skala25a'' ''iv001/Q1.webm'' ''iv001'' ''Q1''
     (Some ''auto_batch'') example_state = None \<and>
   published_progress ''a1'' example_state
     (process_s3_user_video_analysis example_env ''a1'' ''skala25a'' ''iv001/Q1.webm'' ''iv001''
        ''Q1'' (Some ''auto_batch'') example_state) = [10, 30, 60, 80, 100] \<and>
   job_failure example_env ''a2'' ''skala25a'' ''iv001/Q2.webm'' ''iv001'' ''Q2''
     (Some ''auto_batch'') example_state \<noteq> None \<and>
   last (published_progress ''a2'' example_state
     (process_s3_user_video_analysis example_env ''a2'' ''skala25a'' ''iv001/Q2.webm'' ''iv001''
        ''Q2'' (Some ''auto_batch'') example_state)) = 0"
  using progress_sequence[of example_env "''a1''" "''skala25a''" "''iv001/Q1.webm''" "''iv001''"
          "''Q1''" "Some ''auto_batch''" example_state]
        progress_sequence[of example_env "''a2''" "''skala25a''" "''iv001/Q2.webm''" "''iv001''"
          "''Q2''" "Some ''auto_batch''" example_state]
        example_job_completes example_job_fails
  by simp

section \<open>The error document\<close>

text \<open>
  Claim C10. When the \<^verbatim>\<open>try\<close> block of a job is left by an exception and the job
  collection accepts the write of the handler, the document stored under the analysis id
  has status \<^verbatim>\<open>error\<close>, carries the message of the exception, and reports every cheat signal
  as absent: no copying, no impersonation, zero violations, no multiple faces. This holds
  whatever the stages computed before the failure.
\<close>

theorem error_record_no_cheat_signals:
  assumes "job_failure env aid b k u q sid s = Some e"
      and "db_write env (error_data aid u q sid e (clock s)) = None"
  shows "\<exists>d. find_one aid (analysis_results (process_s3_user_video_analysis env aid b k u q sid s))
               = Some d
           \<and> status d = ''error'' \<and> error d = Some (str_exn e)
           \<and> jr_cheating_detection d =
               Some \<lparr> suspected_copying = False, suspected_impersonation = False,
                      cd_total_violations = 0, cd_face_multiple_detected = False,
                      error_occurred = Some True \<rparr>"
proof -
  let ?s1 = "snd (analysis_try env aid b k u q sid s)"
  have c: "clock ?s1 = clock s"
    using try_frame[of aid s env b k u q sid] by (simp add: job_frame_def)
  have "find_one aid (analysis_results (process_s3_user_video_analysis env aid b k u q sid s))
          = Some (error_data aid u q sid e (clock s))"
    unfolding failed_run[OF assms(1)]
    using except_record[of env aid u q sid e ?s1] assms(2) c by simp
  then show ?thesis by (simp add: error_data_def)
qed

theorem error_record_no_cheat_signals_witness:
  "job_failure example_env ''a2'' ''skala25a'' ''iv001/Q2.webm'' ''iv001'' ''Q2''
     (Some ''auto_batch'') example_state = Some (Exception ''scoring failed'') \<and>
   db_write example_env (error_data ''a2'' ''iv001'' ''Q2'' (Some ''auto_batch'')
     (Exception ''scoring failed'') (clock example_state)) = None \<and>
   (\<exists>d. find_one ''a2'' (analysis_results (process_s3_user_video_analysis example_env ''a2''
            ''skala25a'' ''iv001/Q2.webm'' ''iv001'' ''Q2'' (Some ''auto_batch'') example_state))
           = Some d
       \<and> status d = ''error'' \<and> error d = Some ''scoring failed''
       \<and> jr_cheating_detection d =
           Some \<lparr> suspected_copying = False, suspected_impersonation = False,
                  cd_total_violations = 0, cd_face_multiple_detected = False,
                  error_occurred = Some True \<rparr>)"
proof -
  have w: "db_write example_env (error_data ''a2'' ''iv001'' ''Q2'' (Some ''auto_batch'')
     (Exception ''scoring failed'') (clock example_state)) = None"
    by (simp add: example_env_def)
  show ?thesis
    using error_record_no_cheat_signals[OF example_job_fails w] example_job_fails w by simp
qed

section \<open>The single-unit trigger when the unit is missing\<close>

text \<open>
  Claim C9. When the content store has no video for the unit, \<^verbatim>\<open>analyze_s3_user_video\<close>
  raises \<^verbatim>\<open>HTTPException(404)\<close> inside its own \<^verbatim>\<open>try\<close> block, whose handler
  \<^verbatim>\<open>except Exception\<close> catches it and raises \<^verbatim>\<open>HTTPException(500)\<close>: the caller gets
  status 500, with the text of the 404 in the detail. Evaluated on a request for a user the
  example store does not hold.
\<close>

theorem missing_unit_answers_500:
  "analyze_s3_user_video example_env
       \<lparr> req_user_id = ''iv999'', req_question_num = ''Q1'', req_session_id = None \<rparr> example_state
     = Inl (HTTPException 500
         ''failed to start analysis: 404: no video file found for user iv999, question Q1'')"
  by code_simp

section \<open>Dedup by the concatenated key\<close>

text \<open>
  Claim C6. The scan compares the strings \<^verbatim>\<open>f"{user_id}_{question_num}"\<close>, not the pairs.
  A listed unit of user \<^verbatim>\<open>iv001\<close> and question \<^verbatim>\<open>question_1\<close>, for which no document
  exists, is not pending once a document exists for user \<^verbatim>\<open>iv001_question\<close> and question
  \<^verbatim>\<open>1\<close>: both give the string \<^verbatim>\<open>iv001_question_1\<close>.
\<close>

theorem dedup_key_collision:
  "listed [(''iv001'', [''question_1''])] ''iv001'' ''question_1'' \<and>
   \<not> record_exists_for [example_doc ''iv001_question'' ''1'' ''completed''] ''iv001'' ''question_1'' \<and>
   \<not> is_pending [(''iv001'', [''question_1''])] [example_doc ''iv001_question'' ''1'' ''completed'']
       ''iv001'' ''question_1''"
  by (simp add: listed_def record_exists_for_def is_pending_def pending_units_def
        example_doc_def analysis_key_def)

section \<open>Status writes that fail\<close>

lemma sim_and_then:
  assumes "sim_action m1 m2" and "\<And>x. sim_action (f1 x) (f2 x)"
  shows "sim_action (and_then m1 f1) (and_then m2 f2)"
  unfolding sim_action_def
proof (intro allI impI)
  fix s1 s2 assume so: "same_outcome s1 s2"
  obtain r1 t1 where m1: "m1 s1 = (r1, t1)" by (cases "m1 s1")
  obtain r2 t2 where m2: "m2 s2 = (r2, t2)" by (cases "m2 s2")
  from assms(1) so
  have "fst (m1 s1) = fst (m2 s2) \<and> same_outcome (snd (m1 s1)) (snd (m2 s2))"
    unfolding sim_action_def by blast
  with m1 m2 have r: "r1 = r2" and t: "same_outcome t1 t2" by simp_all
  show "fst (and_then m1 f1 s1) = fst (and_then m2 f2 s2) \<and>
        same_outcome (snd (and_then m1 f1 s1)) (snd (and_then m2 f2 s2))"
  proof (cases r1)
    case (Inl e)
    then show ?thesis using m1 m2 r t by (simp add: and_then_def)
  next
    case (Inr x)
    from assms(2)[of x] t
    have "fst (f1 x t1) = fst (f2 x t2) \<and> same_outcome (snd (f1 x t1)) (snd (f2 x t2))"
      by (simp add: sim_action_def)
    moreover have "r2 = Inr x" using r Inr by simp
    ultimately show ?thesis using m1 m2 Inr by (simp add: and_then_def)
  qed
qed

lemma sim_call: "sim_action (call r) (call r)"
  by (simp add: sim_action_def call_def)

lemma sim_call_unit: "sim_action (call_unit r) (call_unit r)"
  by (simp add: sim_action_def call_unit_def split: option.splits)

lemma sim_status:
  "sim_action (effect (update_analysis_status (env\<lparr>status_session := sink\<rparr>) a st stage p))
              (effect (update_analysis_status env a st stage p))"
  by (simp add: sim_action_def effect_def update_analysis_status_eq same_outcome_def
        emitted_update_def erase_write_error_def)

lemma sim_enqueue: "sim_action (effect (add_to_gpt_batch_queue a u q)) (effect (add_to_gpt_batch_queue a u q))"
  by (simp add: sim_action_def effect_def add_to_gpt_batch_queue_def same_outcome_def)

lemma sim_upsert: "sim_action (upsert_job (env\<lparr>status_session := sink\<rparr>) doc) (upsert_job env doc)"
  by (simp add: sim_action_def upsert_job_def same_outcome_def split: option.splits)

lemma sim_save: "sim_action (save_attitude (env\<lparr>status_session := sink\<rparr>) row) (save_attitude env row)"
  by (simp add: sim_action_def save_attitude_def same_outcome_def split: option.splits)

lemma sim_scoring:
  "sim_action (scoring_stages (env\<lparr>status_session := sink\<rparr>) aid b k u q) (scoring_stages env aid b k u q)"
  unfolding scoring_stages_def
  by (intro sim_and_then sim_status) (simp_all add: sim_call sim_call_unit)

lemma sim_upsert_clock:
  "sim_action (\<lambda>s. upsert_job (env\<lparr>status_session := sink\<rparr>)
                  (analysis_data (env\<lparr>status_session := sink\<rparr>) aid b k u q sid p em gz (clock s)) s)
              (\<lambda>s. upsert_job env (analysis_data env aid b k u q sid p em gz (clock s)) s)"
  by (simp add: sim_action_def upsert_job_def same_outcome_def analysis_data_def split: option.splits)

lemma sim_persist:
  "sim_action (persist_stages (env\<lparr>status_session := sink\<rparr>) aid b k u q sid p em gz)
              (persist_stages env aid b k u q sid p em gz)"
  unfolding persist_stages_def
  by (intro sim_and_then sim_status sim_upsert_clock sim_enqueue sim_save) (simp_all add: sim_call)

lemma sim_try:
  "sim_action (analysis_try (env\<lparr>status_session := sink\<rparr>) aid b k u q sid)
              (analysis_try env aid b k u q sid)"
  unfolding analysis_try_def
  by (intro sim_and_then sim_scoring) (auto simp: sim_persist)

lemma sim_except:
  "same_outcome s1 s2 \<Longrightarrow>
   same_outcome (analysis_except (env\<lparr>status_session := sink\<rparr>) aid u q sid e s1)
                (analysis_except env aid u q sid e s2)"
  by (simp add: analysis_except_def upsert_job_def update_analysis_status_eq same_outcome_def
        emitted_update_def erase_write_error_def Let_def split: option.splits)

lemma same_outcome_refl: "same_outcome s s"
  by (simp add: same_outcome_def)

text \<open>
  Claim C8. \<^verbatim>\<open>update_analysis_status\<close> always returns: the update it emits is recorded
  together with the message of the failure of its write, when the write failed. Replacing
  the status sink by any other, failing or not, changes neither whether the \<^verbatim>\<open>try\<close> block
  of a job completes nor with which exception it is left, and the final state is the same
  in the job collection, the queue, the flag, the saved rows and the clock; the status
  updates emitted are the same but for the recorded write failures. So no failure of a
  status write marks a job as failed.
\<close>

theorem status_sink_failure_never_propagates:
  "status_updates (update_analysis_status env aid st stage p s) =
     status_updates s @
       [\<lparr> su_analysis_id = aid, su_status = st,
          su_stage = (if stage = Some [] then None else stage), su_progress = p,
          su_write_error = map_option str_exn (status_session env aid st stage p) \<rparr>] \<and>
   job_failure (env\<lparr>status_session := sink\<rparr>) aid b k u q sid s = job_failure env aid b k u q sid s \<and>
   same_outcome (process_s3_user_video_analysis (env\<lparr>status_session := sink\<rparr>) aid b k u q sid s)
                (process_s3_user_video_analysis env aid b k u q sid s)"
proof -
  let ?t1 = "analysis_try (env\<lparr>status_session := sink\<rparr>) aid b k u q sid s"
  let ?t2 = "analysis_try env aid b k u q sid s"
  have "sim_action (analysis_try (env\<lparr>status_session := sink\<rparr>) aid b k u q sid)
              (analysis_try env aid b k u q sid)"
    by (rule sim_try)
  with same_outcome_refl[of s]
  have r: "fst ?t1 = fst ?t2" and o: "same_outcome (snd ?t1) (snd ?t2)"
    unfolding sim_action_def by blast+
  have 1: "job_failure (env\<lparr>status_session := sink\<rparr>) aid b k u q sid s = job_failure env aid b k u q sid s"
    using r by (simp add: job_failure_def)
  have 2: "same_outcome (process_s3_user_video_analysis (env\<lparr>status_session := sink\<rparr>) aid b k u q sid s)
                (process_s3_user_video_analysis env aid b k u q sid s)"
  proof (cases "fst ?t2")
    case (Inl e)
    then show ?thesis using r o sim_except[OF o]
      by (auto simp: process_s3_user_video_analysis_def split: prod.splits sum.splits)
  next
    case (Inr x)
    then show ?thesis using r o
      by (auto simp: process_s3_user_video_analysis_def split: prod.splits sum.splits)
  qed
  have 0: "status_updates (update_analysis_status env aid st stage p s) =
     status_updates s @
       [\<lparr> su_analysis_id = aid, su_status = st,
          su_stage = (if stage = Some [] then None else stage), su_progress = p,
          su_write_error = map_option str_exn (status_session env aid st stage p) \<rparr>]"
    by (simp add: update_analysis_status_eq emitted_update_def)
  show ?thesis using 0 1 2 by simp
qed


section \<open>Properties of the interleaved drains\<close>

lemma count_update:
  "i < length xs \<Longrightarrow>
   length (filter P (xs[i := y])) + (if P (xs ! i) then 1 else 0) =
   length (filter P xs) + (if P y then 1 else 0)"
proof (induction xs arbitrary: i)
  case Nil
  then show ?case by simp
next
  case (Cons x xs)
  then show ?case by (cases i) auto
qed

lemma count_pos: "i < length xs \<Longrightarrow> P (xs ! i) \<Longrightarrow> 0 < length (filter P xs)"
  by (metis filter_empty_conv length_greater_0_conv nth_mem)

lemma two_draining:
  assumes "i < length ts" "j < length ts" "i \<noteq> j" "is_draining (ts ! i)" "is_draining (ts ! j)"
  shows "2 \<le> length (filter is_draining ts)"
proof -
  have "is_draining (ts[i := Returned] ! j)" using assms by simp
  then have "0 < length (filter is_draining (ts[i := Returned]))"
    using count_pos[of j "ts[i := Returned]" is_draining] assms(2) by simp
  moreover have "length (filter is_draining (ts[i := Returned])) + 1 = length (filter is_draining ts)"
    using count_update[of i ts is_draining Returned] assms(1,4) by simp
  ultimately show ?thesis by linarith
qed

lemma item_keeps:
  "pending_gpt_analyses (gpt_batch_item env i n item s) = pending_gpt_analyses s"
  "batch_processing_active (gpt_batch_item env i n item s) = batch_processing_active s"
  by (auto simp: gpt_batch_item_def gpt_batch_item_try_def and_then_def call_def call_unit_def
        effect_def save_attitude_def sleep_def
        split: option.splits sum.splits prod.splits if_splits)

lemma step_single_flight:
  assumes "step env c l c'" "single_flight c"
  shows "single_flight c'"
  using assms
proof (induction rule: step.induct)
  case (enqueue s' aid uid qnum s e ts)
  then show ?case by (simp add: single_flight_def add_to_gpt_batch_queue_def)
next
  case (trigger s ts)
  then show ?case by (simp add: single_flight_def)
next
  case (begin_noop i ts s)
  then show ?case using count_update[of i ts is_draining Returned]
    by (simp add: single_flight_def)
next
  case (begin_drain i ts s batch s')
  then show ?case using count_update[of i ts is_draining "Draining batch 0"]
    by (auto simp: single_flight_def drain_begin_def split: if_splits)
next
  case (item i ts batch k s)
  then show ?case using count_update[of i ts is_draining "Draining batch (Suc k)"]
    by (simp add: single_flight_def item_keeps)
next
  case (finish i ts batch k s)
  then show ?case using count_update[of i ts is_draining Returned] count_pos[of i ts is_draining]
    by (auto simp: single_flight_def drain_end_def split: if_splits)
next
  case (other s' s ts)
  then show ?case by (simp add: single_flight_def)
qed

lemma steps_single_flight:
  "steps env c tr c' \<Longrightarrow> single_flight c \<Longrightarrow> single_flight c'"
  by (induction rule: steps.induct) (auto intro: step_single_flight)

lemma rank_step:
  assumes "step env c l c'"
  shows "length (snd c) \<le> length (snd c') \<and> (\<forall>i<length (snd c). rank (snd c ! i) \<le> rank (snd c' ! i))"
  using assms
  by (induction rule: step.induct) (auto simp: nth_append nth_list_update)

lemma rank_steps:
  assumes "steps env c tr c'"
  shows "length (snd c) \<le> length (snd c') \<and> (\<forall>i<length (snd c). rank (snd c ! i) \<le> rank (snd c' ! i))"
  using assms
proof (induction rule: steps.induct)
  case (steps_nil c)
  then show ?case by simp
next
  case (steps_snoc c tr c' l c'')
  from rank_step[OF steps_snoc.hyps(2)] steps_snoc.IH show ?case
    by (meson le_trans less_le_trans)
qed

lemma rank_1: "rank t = 1 \<longleftrightarrow> is_draining t"
  by (cases t) auto

lemma enqueued_snoc: "enqueued (tr @ [l]) = enqueued tr @ enqueued [l]"
  by (induction tr rule: enqueued.induct) auto

lemma items_of_snoc: "items_of i (tr @ [l]) = items_of i tr @ items_of i [l]"
  by (induction i tr rule: items_of.induct) auto

lemma take_one_more:
  "k \<le> k1 \<Longrightarrow> k1 < length b \<Longrightarrow>
   take (Suc k1 - k) (drop k b) = take (k1 - k) (drop k b) @ [b ! k1]"
  by (simp add: Suc_diff_le take_Suc_conv_app_nth)


lemma draining_run:
  assumes "steps env c tr c'" "single_flight c" "i < length (snd c)"
      "snd c ! i = Draining b k" "snd c' ! i = Draining b' k'"
  shows "b' = b \<and> k \<le> k' \<and> items_of i tr = take (k' - k) (drop k b) \<and>
         pending_gpt_analyses (fst c') = pending_gpt_analyses (fst c) @ enqueued tr"
  using assms
proof (induction arbitrary: b' k' rule: steps.induct)
  case (steps_nil c)
  then show ?case by simp
next
  case (steps_snoc c tr c1 l c2)
  obtain s1 ts1 where c1: "c1 = (s1, ts1)" by (cases c1)
  obtain s2 ts2 where c2: "c2 = (s2, ts2)" by (cases c2)
  have i1: "i < length ts1"
    using rank_steps[OF steps_snoc.hyps(1)] steps_snoc.prems(2) c1 by simp
  have "rank (snd c ! i) \<le> rank (ts1 ! i)"
    using rank_steps[OF steps_snoc.hyps(1)] steps_snoc.prems(2) c1 by simp
  moreover have "rank (ts1 ! i) \<le> rank (ts2 ! i)"
    using rank_step[OF steps_snoc.hyps(2)] i1 c1 c2 by simp
  ultimately have "rank (ts1 ! i) = 1"
    using steps_snoc.prems(3,4) c2 by simp
  then obtain b1 k1 where d1: "ts1 ! i = Draining b1 k1"
    by (cases "ts1 ! i") auto
  from steps_snoc.IH[OF steps_snoc.prems(1,2,3), of b1 k1] d1 c1
  have ih: "b1 = b" "k \<le> k1" "items_of i tr = take (k1 - k) (drop k b)"
      "pending_gpt_analyses s1 = pending_gpt_analyses (fst c) @ enqueued tr"
    by simp_all
  have sf1: "single_flight (s1, ts1)"
    using steps_single_flight[OF steps_snoc.hyps(1) steps_snoc.prems(1)] c1 by simp
  have only: "j < length ts1 \<Longrightarrow> is_draining (ts1 ! j) \<Longrightarrow> j = i" for j
    using two_draining[of i ts1 j] i1 d1 sf1 by (auto simp: single_flight_def split: if_splits)
  have act: "batch_processing_active s1"
    using sf1 count_pos[of i ts1 is_draining] i1 d1 by (auto simp: single_flight_def split: if_splits)
  have d2: "ts2 ! i = Draining b' k'" using steps_snoc.prems(4) c2 by simp
  from steps_snoc.hyps(2)[unfolded c1 c2] show ?case
  proof (cases rule: step.cases)
    case (enqueue aid uid qnum e)
    then show ?thesis using ih d1 d2 c1 c2
      by (simp add: enqueued_snoc items_of_snoc add_to_gpt_batch_queue_def)
  next
    case trigger
    then show ?thesis using ih d1 d2 i1 c1 c2
      by (simp add: enqueued_snoc items_of_snoc nth_append)
  next
    case (begin_noop j)
    then show ?thesis using ih d1 d2 i1 c1 c2
      by (cases "j = i") (auto simp: enqueued_snoc items_of_snoc)
  next
    case (begin_drain j batch)
    then show ?thesis using act by (simp add: drain_begin_def)
  next
    case (item j batch kk)
    then have "j = i" using only[of j] by simp
    then show ?thesis using item ih d1 d2 i1 c1 c2
      by (auto simp: enqueued_snoc items_of_snoc item_keeps take_one_more)
  next
    case (finish j batch kk)
    then have "j = i" using only[of j] by simp
    then show ?thesis using finish d2 i1 by simp
  next
    case other
    then show ?thesis using ih d1 d2 c1 c2
      by (simp add: enqueued_snoc items_of_snoc)
  qed
qed

lemma initial_single_flight: "\<not> batch_processing_active s0 \<Longrightarrow> single_flight (s0, [])"
  by (simp add: single_flight_def)

section \<open>Single flight\<close>

text \<open>
  Claim C1. From the start of the process (no task, flag clear), whatever the interleaving
  of enqueues, triggers and drain steps, at most one task is inside its drain loop. While
  the flag is set, \<^verbatim>\<open>process_gpt_batch\<close> returns the state unchanged, and the first step
  of a triggered task can only be the early return: the state is unchanged, no entry is
  taken from the queue, and the task has returned.
\<close>

theorem single_flight_drain:
  assumes "steps env (s0, []) tr (s, ts)" and "\<not> batch_processing_active s0"
  shows "length (filter is_draining ts) \<le> 1 \<and>
         (batch_processing_active s \<longrightarrow>
            process_gpt_batch env s = s \<and>
            (\<forall>i c'. step env (s, ts) (Begin i) c' \<longrightarrow> c' = (s, ts[i := Returned])))"
proof -
  have sf: "single_flight (s, ts)"
    using steps_single_flight[OF assms(1) initial_single_flight[OF assms(2)]] .
  then have 1: "length (filter is_draining ts) \<le> 1"
    by (simp add: single_flight_def split: if_splits)
  have 2: "process_gpt_batch env s = s" if "batch_processing_active s"
    using that by (simp add: process_gpt_batch_def drain_begin_def)
  have 3: "c' = (s, ts[i := Returned])"
    if "batch_processing_active s" "step env (s, ts) (Begin i) c'" for i c'
    using that(2) that(1) by (auto elim!: step_BeginE simp: drain_begin_def)
  show ?thesis using 1 2 3 by blast
qed

section \<open>Snapshot semantics of a drain\<close>

text \<open>
  Claim C2. Take a drain that begins in a reachable state, any steps of the system after
  that, and the end of that drain. Its snapshot is the queue as it was when it began, and
  the queue is empty right after. The entries it processes are the snapshot, in order (a
  prefix of it when an exception at the top level ends the drain early). When it ends, the
  queue holds exactly the entries enqueued since it began, in order: none of them was
  processed by this drain, all of them wait for the next.
\<close>

theorem drain_snapshot:
  assumes "steps env (s0, []) tr0 (s, ts)" and "\<not> batch_processing_active s0"
      and "step env (s, ts) (Begin i) (s1, ts1)" and "ts1 ! i = Draining batch 0"
      and "steps env (s1, ts1) tr (s2, ts2)"
      and "step env (s2, ts2) (End i) (s3, ts3)"
  shows "batch = pending_gpt_analyses s \<and> pending_gpt_analyses s1 = [] \<and>
         prefix (items_of i tr) batch \<and>
         ((\<forall>n. top_level_fault env n = None) \<longrightarrow> items_of i tr = batch) \<and>
         pending_gpt_analyses s3 = enqueued tr"
proof -
  have sf: "single_flight (s, ts)"
    using steps_single_flight[OF assms(1) initial_single_flight[OF assms(2)]] .
  have sf1: "single_flight (s1, ts1)" using step_single_flight[OF assms(3) sf] .
  from assms(3) assms(4)
  have beg: "drain_begin s = Some (batch, s1)" and i: "i < length ts" and ts1: "ts1 = ts[i := Draining batch 0]"
    by (auto elim!: step_BeginE)
  then have snap: "batch = pending_gpt_analyses s" "pending_gpt_analyses s1 = []"
    by (auto simp: drain_begin_def split: if_splits)
  from assms(6) obtain b2 k2 where
    e: "i < length ts2" "ts2 ! i = Draining b2 k2" "k2 = length b2 \<or> top_level_fault env (Suc k2) \<noteq> None"
       "s3 = drain_end s2"
    by (auto elim!: step_EndE)
  from draining_run[OF assms(5) sf1, of i batch 0 b2 k2] i ts1 assms(4) e(2)
  have run: "b2 = batch" "items_of i tr = take k2 batch" "pending_gpt_analyses s2 = enqueued tr"
    using snap by simp_all
  have "prefix (items_of i tr) batch" unfolding run(2) by (rule take_is_prefix)
  moreover have "items_of i tr = batch" if "\<forall>n. top_level_fault env n = None"
    using that e(3) run by simp
  moreover have "pending_gpt_analyses s3 = enqueued tr" using e(4) run(3) by (simp add: drain_end_def)
  ultimately show ?thesis using snap by blast
qed


section \<open>The example drain, step by step\<close>

lemma example_queued_eq:
  "example_queued = example_state\<lparr>pending_gpt_analyses := [example_entry ''a1'' ''Q1'']\<rparr>"
  by (simp add: example_queued_def add_to_gpt_batch_queue_def example_state_def example_entry_def)

lemma example_begin:
  "drain_begin example_queued = Some ([example_entry ''a1'' ''Q1''], example_draining)"
  by (simp add: drain_begin_def example_draining_def example_queued_eq example_state_def)

lemma example_draining_sel:
  "batch_processing_active example_draining"
  "pending_gpt_analyses example_draining = []"
  "analysis_results example_draining = []"
  by (simp_all add: example_draining_def example_queued_eq example_state_def)

lemma example_late_sel:
  "batch_processing_active example_late"
  "pending_gpt_analyses example_late = [example_entry ''a3'' ''Q3'']"
  "analysis_results example_late = []"
  by (simp_all add: example_late_def add_to_gpt_batch_queue_def example_draining_def
        example_queued_eq example_state_def example_entry_def)

lemma example_item:
  "gpt_batch_item example_env (Suc 0) (Suc 0) (example_entry ''a1'' ''Q1'') example_late = example_late"
  by (simp add: gpt_batch_item_def gpt_batch_item_try_def and_then_def call_unit_def
        example_env_def example_late_sel example_entry_def)

lemma example_no_fault: "top_level_fault example_env n = None"
  by (simp add: example_env_def)

lemma example_reach:
  "steps example_env (example_state, []) [Enqueue (example_entry ''a1'' ''Q1''), Trigger, Trigger]
     (example_queued, [Triggered, Triggered])"
proof -
  have 1: "step example_env (example_state, []) (Enqueue (example_entry ''a1'' ''Q1''))
             (example_queued, [])"
    by (rule step.enqueue[of _ "''a1''" "''iv001''" "''Q1''"])
       (simp_all add: example_queued_def add_to_gpt_batch_queue_def example_entry_def example_state_def)
  have 2: "step example_env (example_queued, []) Trigger (example_queued, [] @ [Triggered])"
    by (rule step.trigger)
  have 3: "step example_env (example_queued, [Triggered]) Trigger (example_queued, [Triggered] @ [Triggered])"
    by (rule step.trigger)
  from steps_snoc[OF steps_snoc[OF steps_snoc[OF steps_nil 1] 2[simplified]] 3[simplified]]
  show ?thesis by simp
qed

lemma example_first_begin:
  "step example_env (example_queued, [Triggered, Triggered]) (Begin 0)
     (example_draining, [Draining [example_entry ''a1'' ''Q1''] 0, Triggered])"
  using step.begin_drain[of 0 "[Triggered, Triggered]" example_queued "[example_entry ''a1'' ''Q1'']"
          example_draining example_env]
  by (simp add: example_begin)

lemma example_during:
  "steps example_env (example_draining, [Draining [example_entry ''a1'' ''Q1''] 0, Triggered])
     [Enqueue (example_entry ''a3'' ''Q3''), Begin 1, Item 0 (example_entry ''a1'' ''Q1'')]
     (example_late, [Draining [example_entry ''a1'' ''Q1''] 1, Returned])"
proof -
  let ?b = "[example_entry ''a1'' ''Q1'']"
  have 1: "step example_env (example_draining, [Draining ?b 0, Triggered])
             (Enqueue (example_entry ''a3'' ''Q3'')) (example_late, [Draining ?b 0, Triggered])"
    by (rule step.enqueue[of _ "''a3''" "''iv001''" "''Q3''"])
       (simp_all add: example_late_def add_to_gpt_batch_queue_def example_entry_def
          example_draining_def example_queued_eq example_state_def)
  have 2: "step example_env (example_late, [Draining ?b 0, Triggered]) (Begin 1)
             (example_late, [Draining ?b 0, Returned])"
    using step.begin_noop[of 1 "[Draining ?b 0, Triggered]" example_late example_env]
    by (simp add: drain_begin_def example_late_sel)
  have 3: "step example_env (example_late, [Draining ?b 0, Returned]) (Item 0 (example_entry ''a1'' ''Q1''))
             (example_late, [Draining ?b 1, Returned])"
    using step.item[of 0 "[Draining ?b 0, Returned]" ?b 0 example_env example_late]
    by (simp add: example_item example_no_fault)
  from steps_snoc[OF steps_snoc[OF steps_snoc[OF steps_nil 1] 2] 3]
  show ?thesis by simp
qed

lemma example_end:
  "step example_env (example_late, [Draining [example_entry ''a1'' ''Q1''] 1, Returned]) (End 0)
     (example_drained, [Returned, Returned])"
  using step.finish[of 0 "[Draining [example_entry ''a1'' ''Q1''] 1, Returned]"
          "[example_entry ''a1'' ''Q1'']" 1 example_env example_late]
  by (simp add: example_drained_def)

text \<open>
  Two triggers on the example: the first begins a drain, the second finds the flag set
  and returns at once.
\<close>

theorem single_flight_drain_witness:
  "steps example_env (example_state, [])
     [Enqueue (example_entry ''a1'' ''Q1''), Trigger, Trigger, Begin 0]
     (example_draining, [Draining [example_entry ''a1'' ''Q1''] 0, Triggered]) \<and>
   \<not> batch_processing_active example_state \<and>
   batch_processing_active example_draining \<and>
   length (filter is_draining [Draining [example_entry ''a1'' ''Q1''] 0, Triggered]) \<le> 1 \<and>
   process_gpt_batch example_env example_draining = example_draining \<and>
   (\<forall>c'. step example_env (example_draining, [Draining [example_entry ''a1'' ''Q1''] 0, Triggered])
           (Begin 1) c'
         = (c' = (example_draining, [Draining [example_entry ''a1'' ''Q1''] 0, Returned])))"
proof -
  have r: "steps example_env (example_state, [])
     [Enqueue (example_entry ''a1'' ''Q1''), Trigger, Trigger, Begin 0]
     (example_draining, [Draining [example_entry ''a1'' ''Q1''] 0, Triggered])"
    using steps_snoc[OF example_reach example_first_begin] by simp
  have n: "\<not> batch_processing_active example_state" by (simp add: example_state_def)
  have noop: "step example_env (example_draining, [Draining [example_entry ''a1'' ''Q1''] 0, Triggered])
           (Begin 1) (example_draining, [Draining [example_entry ''a1'' ''Q1''] 0, Returned])"
    using step.begin_noop[of 1 "[Draining [example_entry ''a1'' ''Q1''] 0, Triggered]"
            example_draining example_env]
    by (simp add: drain_begin_def example_draining_sel)
  have u: "[Draining [example_entry ''a1'' ''Q1''] 0, Triggered][1 := Returned]
             = [Draining [example_entry ''a1'' ''Q1''] 0, Returned]"
    by simp
  from single_flight_drain[OF r n] example_draining_sel(1)
  have c: "length (filter is_draining [Draining [example_entry ''a1'' ''Q1''] 0, Triggered]) \<le> 1"
    and p: "process_gpt_batch example_env example_draining = example_draining"
    and b: "\<forall>i c'. step example_env
               (example_draining, [Draining [example_entry ''a1'' ''Q1''] 0, Triggered]) (Begin i) c'
             \<longrightarrow> c' = (example_draining,
                       [Draining [example_entry ''a1'' ''Q1''] 0, Triggered][i := Returned])"
    by blast+
  have only: "step example_env (example_draining, [Draining [example_entry ''a1'' ''Q1''] 0, Triggered])
           (Begin 1) c'
         = (c' = (example_draining, [Draining [example_entry ''a1'' ''Q1''] 0, Returned]))" for c'
    using b[rule_format, of 1 c'] noop unfolding u by blast
  show ?thesis
    using r n example_draining_sel(1) c p only by blast
qed

text \<open>
  An entry enqueued while the example drain runs is not among the items it processes and
  is the whole queue when the drain has ended.
\<close>

theorem drain_snapshot_witness:
  "steps example_env (example_state, []) [Enqueue (example_entry ''a1'' ''Q1''), Trigger, Trigger]
     (example_queued, [Triggered, Triggered]) \<and>
   \<not> batch_processing_active example_state \<and>
   step example_env (example_queued, [Triggered, Triggered]) (Begin 0)
     (example_draining, [Draining [example_entry ''a1'' ''Q1''] 0, Triggered]) \<and>
   steps example_env (example_draining, [Draining [example_entry ''a1'' ''Q1''] 0, Triggered])
     [Enqueue (example_entry ''a3'' ''Q3''), Begin 1, Item 0 (example_entry ''a1'' ''Q1'')]
     (example_late, [Draining [example_entry ''a1'' ''Q1''] 1, Returned]) \<and>
   step example_env (example_late, [Draining [example_entry ''a1'' ''Q1''] 1, Returned]) (End 0)
     (example_drained, [Returned, Returned]) \<and>
   pending_gpt_analyses example_queued = [example_entry ''a1'' ''Q1''] \<and>
   pending_gpt_analyses example_draining = [] \<and>
   items_of 0 [Enqueue (example_entry ''a3'' ''Q3''), Begin 1, Item 0 (example_entry ''a1'' ''Q1'')]
     = [example_entry ''a1'' ''Q1''] \<and>
   pending_gpt_analyses example_drained = [example_entry ''a3'' ''Q3'']"
proof -
  have n: "\<not> batch_processing_active example_state" by (simp add: example_state_def)
  have f: "\<forall>n. top_level_fault example_env n = None" by (simp add: example_env_def)
  from drain_snapshot[OF example_reach n example_first_begin _ example_during example_end] f
  show ?thesis using example_reach n example_first_begin example_during example_end by simp
qed

section \<open>Release of the flag\<close>

text \<open>
  Claim C3. A drain that sets the flag (its first step is not the early return) runs with
  the flag set and leaves it clear when \<^verbatim>\<open>process_gpt_batch\<close> returns, whether the loop
  exhausted the snapshot or an exception at the top level of the \<^verbatim>\<open>try\<close> block ended
  it: the \<^verbatim>\<open>finally\<close> clause runs on both paths. In the interleaved system, the step that
  ends a drain leaves the flag clear.
\<close>

theorem flag_released_on_every_exit:
  "(\<forall>batch s1. drain_begin s = Some (batch, s1) \<longrightarrow>
      batch_processing_active s1 \<and> drain_exit_of env s \<noteq> NotStarted \<and>
      \<not> batch_processing_active (process_gpt_batch env s)) \<and>
   (\<forall>i s' ts'. step env (s, ts) (End i) (s', ts') \<longrightarrow> \<not> batch_processing_active s')"
proof (intro conjI allI impI)
  fix batch s1 assume b: "drain_begin s = Some (batch, s1)"
  then show "batch_processing_active s1" by (auto simp: drain_begin_def split: if_splits)
  show "drain_exit_of env s \<noteq> NotStarted"
    using b by (simp add: drain_exit_of_def split: option.splits)
  show "\<not> batch_processing_active (process_gpt_batch env s)"
    using b by (simp add: process_gpt_batch_def drain_end_def)
next
  fix i s' ts' assume "step env (s, ts) (End i) (s', ts')"
  then show "\<not> batch_processing_active s'"
    by (auto elim!: step_EndE simp: drain_end_def)
qed

theorem flag_released_on_every_exit_witness:
  "drain_begin example_queued = Some ([example_entry ''a1'' ''Q1''], example_draining) \<and>
   batch_processing_active example_draining \<and>
   drain_exit_of example_env example_queued = Exhausted \<and>
   \<not> batch_processing_active (process_gpt_batch example_env example_queued) \<and>
   drain_exit_of example_faulty_env example_queued = TopLevelException (Exception ''print failed'') \<and>
   \<not> batch_processing_active (process_gpt_batch example_faulty_env example_queued) \<and>
   step example_env (example_late, [Draining [example_entry ''a1'' ''Q1''] 1, Returned]) (End 0)
     (example_drained, [Returned, Returned]) \<and>
   \<not> batch_processing_active example_drained"
proof -
  have item0: "gpt_batch_item example_env 1 1 (example_entry ''a1'' ''Q1'') example_draining = example_draining"
    by (simp add: gpt_batch_item_def gpt_batch_item_try_def and_then_def call_unit_def
        example_env_def example_draining_sel example_entry_def)
  have x1: "drain_exit_of example_env example_queued = Exhausted"
    by (simp add: drain_exit_of_def example_begin item0) (simp add: example_env_def)
  have x2: "drain_exit_of example_faulty_env example_queued = TopLevelException (Exception ''print failed'')"
    by (simp add: drain_exit_of_def example_begin) (simp add: example_faulty_env_def)
  have a: "batch_processing_active example_draining \<and>
           \<not> batch_processing_active (process_gpt_batch example_env example_queued)"
    using flag_released_on_every_exit[of example_queued example_env "[]"] example_begin by blast
  have b: "\<not> batch_processing_active (process_gpt_batch example_faulty_env example_queued)"
    using flag_released_on_every_exit[of example_queued example_faulty_env "[]"] example_begin
    by blast
  have c: "\<not> batch_processing_active example_drained"
    using flag_released_on_every_exit[of example_late example_env
            "[Draining [example_entry ''a1'' ''Q1''] 1, Returned]"] example_end
    by blast
  show ?thesis using a b c example_begin x1 x2 example_end by blast
qed

text \<open>
  With a status sink that fails every write, the example job still completes and leaves
  the same outcome.
\<close>

theorem status_sink_failure_never_propagates_witness:
  "job_failure (example_env\<lparr>status_session := example_failing_sink\<rparr>) ''a1'' ''skala25a''
     ''iv001/Q1.webm'' ''iv001'' ''Q1'' (Some ''auto_batch'') example_state = None \<and>
   same_outcome
     (process_s3_user_video_analysis (example_env\<lparr>status_session := example_failing_sink\<rparr>)
        ''a1'' ''skala25a'' ''iv001/Q1.webm'' ''iv001'' ''Q1'' (Some ''auto_batch'') example_state)
     (process_s3_user_video_analysis example_env
        ''a1'' ''skala25a'' ''iv001/Q1.webm'' ''iv001'' ''Q1'' (Some ''auto_batch'') example_state)"
  using status_sink_failure_never_propagates[of example_env "''a1''" "''processing''" None 0
          example_state example_failing_sink "''skala25a''" "''iv001/Q1.webm''" "''iv001''" "''Q1''"
          "Some ''auto_batch''"]
        example_job_completes
  by simp


section \<open>Failure isolation in the scan\<close>

lemma sleep_results [simp]: "analysis_results (sleep n s) = analysis_results s"
  by (simp add: sleep_def)

lemma scan_unit_skipped:
  "unit_result_of env bucket unit s = Skipped \<Longrightarrow> scan_unit env bucket unit s = s"
  by (auto simp: unit_result_of_def scan_unit_def split: prod.splits sum.splits option.splits if_splits)

lemma scan_unit_ran:
  assumes "unit_result_of env bucket unit s = Ran aid r"
  shows "\<exists>key. aid = auto_analysis_id env (fst unit) (snd unit) s \<and>
           r = job_failure env aid bucket key (fst unit) (snd unit) (Some ''auto_batch'') s \<and>
           scan_unit env bucket unit s =
             sleep 2 (process_s3_user_video_analysis env aid bucket key (fst unit) (snd unit)
                        (Some ''auto_batch'') s)"
  using assms
  by (auto simp: unit_result_of_def scan_unit_def split: prod.splits sum.splits option.splits if_splits)

lemma scan_unit_other:
  assumes "unit_result_of env bucket unit s = Ran aid r" and "a \<noteq> aid"
  shows "find_one a (analysis_results (scan_unit env bucket unit s)) = find_one a (analysis_results s)"
proof -
  from scan_unit_ran[OF assms(1)] obtain key where
    k: "scan_unit env bucket unit s =
          sleep 2 (process_s3_user_video_analysis env aid bucket key (fst unit) (snd unit)
                     (Some ''auto_batch'') s)"
    by blast
  show ?thesis unfolding k
    using process_frame[of aid s env bucket key "fst unit" "snd unit" "Some ''auto_batch''"] assms(2)
    by (simp add: job_frame_def)
qed

lemma scan_unit_completed:
  assumes "unit_result_of env bucket unit s = Ran aid None"
  shows "stored_status aid (scan_unit env bucket unit s) = Some ''completed''"
proof -
  from scan_unit_ran[OF assms] obtain key where
    k: "scan_unit env bucket unit s =
          sleep 2 (process_s3_user_video_analysis env aid bucket key (fst unit) (snd unit)
                     (Some ''auto_batch'') s)"
    and f: "job_failure env aid bucket key (fst unit) (snd unit) (Some ''auto_batch'') s = None"
    by force
  from try_success(2)[OF completed_run[OF f]] show ?thesis
    unfolding k by (auto simp: stored_status_def)
qed

lemma scan_unit_failed:
  assumes "unit_result_of env bucket unit s = Ran aid (Some e)"
      and "db_write env (error_data aid (fst unit) (snd unit) (Some ''auto_batch'') e (clock s)) = None"
  shows "stored_status aid (scan_unit env bucket unit s) = Some ''error'' \<and>
         stored_error aid (scan_unit env bucket unit s) = Some (str_exn e)"
proof -
  from scan_unit_ran[OF assms(1)] obtain key where
    k: "scan_unit env bucket unit s =
          sleep 2 (process_s3_user_video_analysis env aid bucket key (fst unit) (snd unit)
                     (Some ''auto_batch'') s)"
    and f: "job_failure env aid bucket key (fst unit) (snd unit) (Some ''auto_batch'') s = Some e"
    by force
  let ?s1 = "snd (analysis_try env aid bucket key (fst unit) (snd unit) (Some ''auto_batch'') s)"
  have c: "clock ?s1 = clock s"
    using try_frame[of aid s env bucket key "fst unit" "snd unit" "Some ''auto_batch''"]
    by (simp add: job_frame_def)
  have "find_one aid (analysis_results (scan_unit env bucket unit s))
          = Some (error_data aid (fst unit) (snd unit) (Some ''auto_batch'') e (clock s))"
    unfolding k failed_run[OF f]
    using except_record[of env aid "fst unit" "snd unit" "Some ''auto_batch''" e ?s1] assms(2) c
    by simp
  then show ?thesis by (simp add: stored_status_def stored_error_def error_data_def)
qed

lemma scan_loop_append:
  "scan_loop env bucket (xs @ ys) s = scan_loop env bucket ys (scan_loop env bucket xs s)"
  by (induction xs arbitrary: s) auto

lemma scan_ids_append:
  "scan_ids env bucket (xs @ ys) s =
     scan_ids env bucket xs s @ scan_ids env bucket ys (scan_loop env bucket xs s)"
  by (induction xs arbitrary: s) (auto split: unit_result.splits)

lemma scan_loop_other:
  "aid \<notin> set (scan_ids env bucket units s) \<Longrightarrow>
   find_one aid (analysis_results (scan_loop env bucket units s)) = find_one aid (analysis_results s)"
proof (induction units arbitrary: s)
  case Nil
  then show ?case by simp
next
  case (Cons unit units)
  show ?case
  proof (cases "unit_result_of env bucket unit s")
    case Skipped
    then show ?thesis using Cons by (simp add: scan_unit_skipped)
  next
    case (Ran a r)
    then have "aid \<noteq> a" and rest: "aid \<notin> set (scan_ids env bucket units (scan_unit env bucket unit s))"
      using Cons.prems by auto
    then show ?thesis using Cons.IH[OF rest] scan_unit_other[OF Ran, of aid] by simp
  qed
qed

text \<open>
  Claim C4. In a scan over a list of units whose jobs run under pairwise distinct analysis
  ids, take any unit for which a job ran. Whatever that job did, the loop goes on with the
  units after it. If the \<^verbatim>\<open>try\<close> block of the job completed, the document stored under
  its analysis id at the end of the scan has status \<^verbatim>\<open>completed\<close>, whatever happened to
  the other units. If it was left by an exception and the job collection accepted the
  write of the handler, the document stored under its analysis id at the end of the scan
  has status \<^verbatim>\<open>error\<close> and carries the message of that exception.
\<close>

theorem failure_isolation:
  assumes "distinct (scan_ids env bucket units s)" and "k < length units"
      and "unit_result_of env bucket (units ! k) (state_before env bucket units k s) = Ran aid r"
  shows "scan_loop env bucket units s =
           scan_loop env bucket (drop (Suc k) units)
             (scan_unit env bucket (units ! k) (state_before env bucket units k s)) \<and>
         (r = None \<longrightarrow> stored_status aid (scan_loop env bucket units s) = Some ''completed'') \<and>
         (\<forall>e. r = Some e \<and>
               db_write env (error_data aid (fst (units ! k)) (snd (units ! k)) (Some ''auto_batch'') e
                               (clock (state_before env bucket units k s))) = None \<longrightarrow>
              stored_status aid (scan_loop env bucket units s) = Some ''error'' \<and>
              stored_error aid (scan_loop env bucket units s) = Some (str_exn e))"
proof -
  let ?sk = "state_before env bucket units k s"
  let ?s1 = "scan_unit env bucket (units ! k) ?sk"
  let ?rest = "drop (Suc k) units"
  have split: "units = take k units @ (units ! k) # ?rest"
    using assms(2) by (simp add: id_take_nth_drop)
  have loop: "scan_loop env bucket units s = scan_loop env bucket ?rest ?s1"
    by (subst split) (simp add: scan_loop_append state_before_def)
  have ids: "scan_ids env bucket units s =
               scan_ids env bucket (take k units) s @ aid # scan_ids env bucket ?rest ?s1"
    by (subst split) (simp add: scan_ids_append state_before_def[symmetric] assms(3))
  have notin: "aid \<notin> set (scan_ids env bucket ?rest ?s1)"
    using assms(1) unfolding ids by simp
  have keep: "find_one aid (analysis_results (scan_loop env bucket units s)) =
              find_one aid (analysis_results ?s1)"
    unfolding loop by (rule scan_loop_other[OF notin])
  have ok: "stored_status aid (scan_loop env bucket units s) = Some ''completed''" if "r = None"
    using scan_unit_completed[of env bucket "units ! k" ?sk aid] assms(3) that keep
    by (simp add: stored_status_def)
  have bad: "stored_status aid (scan_loop env bucket units s) = Some ''error'' \<and>
             stored_error aid (scan_loop env bucket units s) = Some (str_exn e)"
    if "r = Some e" "db_write env (error_data aid (fst (units ! k)) (snd (units ! k))
           (Some ''auto_batch'') e (clock ?sk)) = None" for e
    using scan_unit_failed[of env bucket "units ! k" ?sk aid e] assms(3) that keep
    by (simp add: stored_status_def stored_error_def)
  show ?thesis using loop ok bad by blast
qed


text \<open>
  The example scan: the second of three units raises during scoring; the first and the
  third are stored as completed, the second as an error with the message.
\<close>

lemma example_scan_ids:
  "scan_ids example_env ''skala25a'' example_units example_state =
     [''auto_s3_analysis_iv001_Q1_20250617_0'', ''auto_s3_analysis_iv001_Q2_20250617_2'',
      ''auto_s3_analysis_iv001_Q3_20250617_4'']"
  by code_simp

lemma example_unit_results:
  "unit_result_of example_env ''skala25a'' (example_units ! 0)
     (state_before example_env ''skala25a'' example_units 0 example_state)
     = Ran ''auto_s3_analysis_iv001_Q1_20250617_0'' None"
  "unit_result_of example_env ''skala25a'' (example_units ! 1)
     (state_before example_env ''skala25a'' example_units 1 example_state)
     = Ran ''auto_s3_analysis_iv001_Q2_20250617_2'' (Some (Exception ''scoring failed''))"
  "unit_result_of example_env ''skala25a'' (example_units ! 2)
     (state_before example_env ''skala25a'' example_units 2 example_state)
     = Ran ''auto_s3_analysis_iv001_Q3_20250617_4'' None"
  by code_simp+


theorem failure_isolation_witness:
  "distinct (scan_ids example_env ''skala25a'' example_units example_state) \<and>
   unit_result_of example_env ''skala25a'' (example_units ! 0)
     (state_before example_env ''skala25a'' example_units 0 example_state)
     = Ran ''auto_s3_analysis_iv001_Q1_20250617_0'' None \<and>
   unit_result_of example_env ''skala25a'' (example_units ! 1)
     (state_before example_env ''skala25a'' example_units 1 example_state)
     = Ran ''auto_s3_analysis_iv001_Q2_20250617_2'' (Some (Exception ''scoring failed'')) \<and>
   unit_result_of example_env ''skala25a'' (example_units ! 2)
     (state_before example_env ''skala25a'' example_units 2 example_state)
     = Ran ''auto_s3_analysis_iv001_Q3_20250617_4'' None \<and>
   stored_status ''auto_s3_analysis_iv001_Q1_20250617_0''
     (scan_loop example_env ''skala25a'' example_units example_state) = Some ''completed'' \<and>
   stored_status ''auto_s3_analysis_iv001_Q2_20250617_2''
     (scan_loop example_env ''skala25a'' example_units example_state) = Some ''error'' \<and>
   stored_error ''auto_s3_analysis_iv001_Q2_20250617_2''
     (scan_loop example_env ''skala25a'' example_units example_state) = Some ''scoring failed'' \<and>
   stored_status ''auto_s3_analysis_iv001_Q3_20250617_4''
     (scan_loop example_env ''skala25a'' example_units example_state) = Some ''completed''"
proof -
  have d: "distinct (scan_ids example_env ''skala25a'' example_units example_state)"
    unfolding example_scan_ids by simp
  have len: "0 < length example_units" "1 < length example_units" "2 < length example_units"
    by (simp_all add: example_units_def)
  have w: "db_write example_env doc = None" for doc
    by (simp add: example_env_def)
  have q1: "stored_status ''auto_s3_analysis_iv001_Q1_20250617_0''
     (scan_loop example_env ''skala25a'' example_units example_state) = Some ''completed''"
    using failure_isolation[OF d len(1) example_unit_results(1)] by blast
  have q2: "stored_status ''auto_s3_analysis_iv001_Q2_20250617_2''
     (scan_loop example_env ''skala25a'' example_units example_state) = Some ''error'' \<and>
     stored_error ''auto_s3_analysis_iv001_Q2_20250617_2''
     (scan_loop example_env ''skala25a'' example_units example_state) = Some ''scoring failed''"
    using failure_isolation[OF d len(2) example_unit_results(2)] w by force
  have q3: "stored_status ''auto_s3_analysis_iv001_Q3_20250617_4''
     (scan_loop example_env ''skala25a'' example_units example_state) = Some ''completed''"
    using failure_isolation[OF d len(3) example_unit_results(3)] by blast
  show ?thesis using d example_unit_results q1 q2 q3 by blast
qed

section \<open>What the scan reads of a document\<close>

lemma videos_to_analyze_iff:
  "(u, q) \<in> set (videos_to_analyze available existing) \<longleftrightarrow>
     listed available u q \<and> analysis_key u q \<notin> set existing"
  by (induction available existing rule: videos_to_analyze.induct) (auto simp: listed_def)

lemma existing_analyses_ignores_status:
  "existing_analyses (map (\<lambda>d. d\<lparr>status := f d\<rparr>) docs) = existing_analyses docs"
  by (induction docs) (auto split: option.splits)

lemma pending_ignores_status:
  "is_pending available (map (\<lambda>d. d\<lparr>status := f d\<rparr>) docs) u q = is_pending available docs u q"
  by (simp add: is_pending_def pending_units_def existing_analyses_ignores_status)

end
